theory Spec2Isabelle
  imports Complex_Main "HOL-Library.Multiset" "HOL-Library.Product_Lexorder"
begin

section \<open>Python values\<close>

text \<open>
  The two analyzers of the repository, \<^verbatim>\<open>src/app2.py\<close> (hosted model) and
  \<^verbatim>\<open>src/remd.py\<close> (local model), are embedded side by side. Definitions that
  are the same Python in both files are shared; where the files differ there is one
  definition per file, prefixed \<open>app2_\<close> or \<open>remd_\<close>.

  A decoded JSON document is a value of \<open>json\<close>. A finite number is the rational it
  denotes: Python's \<^verbatim>\<open>int\<close> and every finite \<^verbatim>\<open>float\<close> are rationals, and Python
  compares them by value. The quotient \<^verbatim>\<open>a / b\<close> of two integers is kept exact; the
  float Python stores is the double nearest to it. \<open>JNaN\<close> is the float \<^verbatim>\<open>nan\<close>,
  \<open>JInf True\<close> is \<^verbatim>\<open>inf\<close> and \<open>JInf False\<close> is \<^verbatim>\<open>-inf\<close>: \<^verbatim>\<open>json.loads\<close> returns
  them for the texts \<^verbatim>\<open>NaN\<close>, \<^verbatim>\<open>Infinity\<close> and \<^verbatim>\<open>-Infinity\<close>.
  An object holds the items of a Python \<^verbatim>\<open>dict\<close> in insertion order.
\<close>

datatype json =
    JNull
  | JBool bool
  | JNum rat
  | JNaN
  | JInf bool
  | JStr string
  | JArr "json list"
  | JObj "(string \<times> json) list"

text \<open>
  The exceptions the modelled code can raise. \<open>GenerationError\<close> is any failure of the
  text-generation backend.
\<close>

datatype py_error =
    GenerationError
  | AttributeError
  | TypeError
  | ZeroDivisionError

subsection \<open>Strings and slices\<close>

text \<open>\<^verbatim>\<open>s.find(c)\<close>: the index of the first occurrence of \<open>c\<close>, or \<open>-1\<close>.\<close>

definition py_find :: "char \<Rightarrow> string \<Rightarrow> int" where
  "py_find c s =
     (if c \<in> set s then int (length (takeWhile (\<lambda>x. x \<noteq> c) s)) else - 1)"

text \<open>\<^verbatim>\<open>s.rfind(c)\<close>: the index of the last occurrence of \<open>c\<close>, or \<open>-1\<close>.\<close>

definition py_rfind :: "char \<Rightarrow> string \<Rightarrow> int" where
  "py_rfind c s =
     (if c \<in> set s
      then int (length s) - 1 - int (length (takeWhile (\<lambda>x. x \<noteq> c) (rev s)))
      else - 1)"

text \<open>
  \<^verbatim>\<open>xs[i:j]\<close>: a negative index counts from the end, then both are clamped to
  \<open>0..len(xs)\<close>; the slice is empty when the upper index is not above the lower.
\<close>

definition py_slice :: "'a list \<Rightarrow> int \<Rightarrow> int \<Rightarrow> 'a list" where
  "py_slice xs i j =
     (let n = int (length xs);
          lo = (if i < 0 then max (i + n) 0 else min i n);
          hi = (if j < 0 then max (j + n) 0 else min j n)
      in take (nat (hi - lo)) (drop (nat lo) xs))"

text \<open>\<^verbatim>\<open>sep.join(xs)\<close>.\<close>

fun py_join :: "string \<Rightarrow> string list \<Rightarrow> string" where
  "py_join sep [] = []"
| "py_join sep [x] = x"
| "py_join sep (x # y # ys) = x @ sep @ py_join sep (y # ys)"

subsection \<open>Dictionaries\<close>

text \<open>\<^verbatim>\<open>d.get(k, default)\<close> on the items of a dictionary.\<close>

definition dict_get :: "(string \<times> json) list \<Rightarrow> string \<Rightarrow> json \<Rightarrow> json" where
  "dict_get d k dflt = (case map_of d k of None \<Rightarrow> dflt | Some v \<Rightarrow> v)"

text \<open>\<^verbatim>\<open>d[k] = v\<close>: an existing key keeps its position and takes the new value.\<close>

fun dict_set :: "string \<Rightarrow> 'v \<Rightarrow> (string \<times> 'v) list \<Rightarrow> (string \<times> 'v) list" where
  "dict_set k v [] = [(k, v)]"
| "dict_set k v ((k', v') # d) =
     (if k = k' then (k', v) # d else (k', v') # dict_set k v d)"

subsection \<open>Sorting\<close>

text \<open>
  \<^verbatim>\<open>sorted(xs, key=key, reverse=True)\<close> on keys of a linear order. CPython reverses
  the list, sorts it stably in ascending order and reverses the result, so that elements
  with equal keys keep their order.
\<close>

definition py_sorted_desc :: "('a \<Rightarrow> 'k::linorder) \<Rightarrow> 'a list \<Rightarrow> 'a list" where
  "py_sorted_desc key xs = rev (sort_key key (rev xs))"

subsection \<open>Counters\<close>

text \<open>
  A \<^verbatim>\<open>collections.Counter\<close> is its items in insertion order.
  \<^verbatim>\<open>c[k] += 1\<close> is \<open>counter_incr\<close>; \<^verbatim>\<open>c.update(ks)\<close> counts every element of the
  list \<open>ks\<close> in turn.
\<close>

type_synonym counter = "(string \<times> nat) list"

fun counter_incr :: "string \<Rightarrow> counter \<Rightarrow> counter" where
  "counter_incr k [] = [(k, 1)]"
| "counter_incr k ((k', n) # c) =
     (if k = k' then (k', n + 1) # c else (k', n) # counter_incr k c)"

definition counter_update :: "counter \<Rightarrow> string list \<Rightarrow> counter" where
  "counter_update c ks = fold counter_incr ks c"

text \<open>
  \<^verbatim>\<open>c.most_common(n)\<close> is \<^verbatim>\<open>heapq.nlargest(n, c.items(), key=itemgetter(1))\<close>, which
  the library documents as \<^verbatim>\<open>sorted(c.items(), key=itemgetter(1), reverse=True)[:n]\<close>.
\<close>

definition most_common :: "nat \<Rightarrow> counter \<Rightarrow> counter" where
  "most_common n c = take n (py_sorted_desc snd c)"

section \<open>The JSON decoder\<close>

text \<open>
  \<^verbatim>\<open>json.loads\<close> belongs to Python's library, so every definition below takes the
  decoder as a parameter \<open>loads\<close>, with \<open>None\<close> for a raised \<^verbatim>\<open>JSONDecodeError\<close>.

  For closed examples the decoder \<open>json_loads\<close> reads a fragment of JSON: objects,
  arrays, strings without escapes, integers, \<^verbatim>\<open>true\<close>, \<^verbatim>\<open>false\<close>, \<^verbatim>\<open>null\<close>
  and the three constants \<^verbatim>\<open>NaN\<close>, \<^verbatim>\<open>Infinity\<close>, \<^verbatim>\<open>-Infinity\<close> that Python
  accepts, with white space between tokens. It rejects a text outside the fragment (an escape,
  a fraction, an exponent), which Python may accept, so it is only ever applied to the
  concrete texts of the examples.
\<close>

definition is_ws :: "char \<Rightarrow> bool" where
  "is_ws c = (c = CHR '' '' \<or> c = CHR 0x09 \<or> c = CHR 0x0A \<or> c = CHR 0x0D)"

definition skip_ws :: "string \<Rightarrow> string" where
  "skip_ws s = dropWhile is_ws s"

definition is_digit :: "char \<Rightarrow> bool" where
  "is_digit c = (c \<in> set ''0123456789'')"

definition digit_val :: "char \<Rightarrow> nat" where
  "digit_val c = of_char c - 48"

text \<open>The characters of a string after its opening quote, up to the closing quote.\<close>

fun scan_string :: "string \<Rightarrow> (string \<times> string) option" where
  "scan_string [] = None"
| "scan_string (c # cs) =
     (if c = CHR 0x22 then Some ([], cs)
      else if c = CHR 0x5C \<or> (of_char c :: nat) < 32 then None
      else (case scan_string cs of
              None \<Rightarrow> None
            | Some (s, r) \<Rightarrow> Some (c # s, r)))"

definition scan_int :: "string \<Rightarrow> (rat \<times> string) option" where
  "scan_int s =
     (let neg = (s \<noteq> [] \<and> hd s = CHR ''-'');
          body = (if neg then tl s else s);
          ds = takeWhile is_digit body;
          r = dropWhile is_digit body;
          n = fold (\<lambda>d a. 10 * a + digit_val d) ds 0
      in if ds = [] \<or> (1 < length ds \<and> hd ds = CHR ''0'') then None
         else if r \<noteq> [] \<and> hd r \<in> set ''.eE'' then None
         else Some (if neg then - of_nat n else of_nat n, r))"

definition dict_of_items :: "(string \<times> json) list \<Rightarrow> (string \<times> json) list" where
  "dict_of_items kvs = fold (\<lambda>(k, v) d. dict_set k v d) kvs []"

fun parse_value :: "nat \<Rightarrow> string \<Rightarrow> (json \<times> string) option"
  and parse_items :: "nat \<Rightarrow> string \<Rightarrow> (json list \<times> string) option"
  and parse_members :: "nat \<Rightarrow> string \<Rightarrow> ((string \<times> json) list \<times> string) option"
where
  "parse_value 0 s = None"
| "parse_value (Suc n) s =
     (case skip_ws s of
        [] \<Rightarrow> None
      | c # cs \<Rightarrow>
          if c = CHR ''{'' then
            (if skip_ws cs \<noteq> [] \<and> hd (skip_ws cs) = CHR ''}''
             then Some (JObj [], tl (skip_ws cs))
             else (case parse_members n cs of
                     None \<Rightarrow> None
                   | Some (kvs, r) \<Rightarrow> Some (JObj (dict_of_items kvs), r)))
          else if c = CHR ''['' then
            (if skip_ws cs \<noteq> [] \<and> hd (skip_ws cs) = CHR '']''
             then Some (JArr [], tl (skip_ws cs))
             else (case parse_items n cs of
                     None \<Rightarrow> None
                   | Some (vs, r) \<Rightarrow> Some (JArr vs, r)))
          else if c = CHR 0x22 then
            (case scan_string cs of
               None \<Rightarrow> None
             | Some (str, r) \<Rightarrow> Some (JStr str, r))
          else if take 4 (c # cs) = ''null'' then Some (JNull, drop 4 (c # cs))
          else if take 4 (c # cs) = ''true'' then Some (JBool True, drop 4 (c # cs))
          else if take 5 (c # cs) = ''false'' then Some (JBool False, drop 5 (c # cs))
          else if take 3 (c # cs) = ''NaN'' then Some (JNaN, drop 3 (c # cs))
          else if take 8 (c # cs) = ''Infinity'' then Some (JInf True, drop 8 (c # cs))
          else if take 9 (c # cs) = ''-Infinity'' then Some (JInf False, drop 9 (c # cs))
          else (case scan_int (c # cs) of
                  None \<Rightarrow> None
                | Some (q, r) \<Rightarrow> Some (JNum q, r)))"
| "parse_items 0 s = None"
| "parse_items (Suc n) s =
     (case parse_value n s of
        None \<Rightarrow> None
      | Some (v, r) \<Rightarrow>
          (case skip_ws r of
             [] \<Rightarrow> None
           | c # r' \<Rightarrow>
               if c = CHR '']'' then Some ([v], r')
               else if c = CHR '','' then
                 (case parse_items n r' of
                    None \<Rightarrow> None
                  | Some (vs, r'') \<Rightarrow> Some (v # vs, r''))
               else None))"
| "parse_members 0 s = None"
| "parse_members (Suc n) s =
     (case skip_ws s of
        [] \<Rightarrow> None
      | q # cs \<Rightarrow>
          if q \<noteq> CHR 0x22 then None
          else (case scan_string cs of
                  None \<Rightarrow> None
                | Some (k, r) \<Rightarrow>
                    (case skip_ws r of
                       [] \<Rightarrow> None
                     | c # r' \<Rightarrow>
                         if c \<noteq> CHR '':'' then None
                         else (case parse_value n r' of
                                 None \<Rightarrow> None
                               | Some (v, r'') \<Rightarrow>
                                   (case skip_ws r'' of
                                      [] \<Rightarrow> None
                                    | d # r3 \<Rightarrow>
                                        if d = CHR ''}'' then Some ([(k, v)], r3)
                                        else if d = CHR '','' then
                                          (case parse_members n r3 of
                                             None \<Rightarrow> None
                                           | Some (kvs, r4) \<Rightarrow> Some ((k, v) # kvs, r4))
                                        else None)))))"

definition json_loads :: "string \<Rightarrow> json option" where
  "json_loads s =
     (case parse_value (2 * length s + 2) s of
        None \<Rightarrow> None
      | Some (v, r) \<Rightarrow> if skip_ws r = [] then Some v else None)"

section \<open>Data model\<close>

text \<open>
  The dataclasses \<^verbatim>\<open>Book\<close>, \<^verbatim>\<open>TasteProfile\<close> and \<^verbatim>\<open>BookScore\<close>. A book is built
  by the callers, with the types its annotations give. The fields of a profile and of a
  score are read from the decoded reply without any check, so they hold JSON values.
\<close>

record Book =
  title :: string
  author :: string
  genres :: "string list"
  themes :: "string list"
  year :: "int option"
  description :: "string option"

record TasteProfile =
  favorite_genres :: json
  favorite_authors :: json
  common_themes :: json
  era_preferences :: json
  reading_level :: json
  diversity_score :: json
  summary :: json

record BookScore =
  book :: Book
  overall_score :: json
  genre_match :: json
  theme_match :: json
  author_similarity :: json
  novelty_score :: json
  reasoning :: json
  recommendation :: json

section \<open>The text-generation backend\<close>

text \<open>
  Each prompt is a fixed template around \<^verbatim>\<open>json.dumps\<close> of the book list, and for
  scoring also of a view of the profile; a \<open>request\<close> keeps what is serialised. A
  backend gives, for the number of calls made before and a request, the reply text or
  the exception the call raises. A function that may call the backend takes the number
  of calls made so far and returns it with its result, one higher for each call.
  What the functions print is not modelled.
\<close>

datatype request =
    TasteRequest "Book list"
  | ScoreRequest json "Book list"

type_synonym backend = "nat \<Rightarrow> request \<Rightarrow> py_error + string"

section \<open>Extracting JSON from a reply\<close>

text \<open>
  \<^verbatim>\<open>app2.py\<close>, lines 135-141 and 267-273: the text between the first opening and the
  last closing bracket when there is one, the whole reply otherwise.
\<close>

definition app2_extract_json ::
  "(string \<Rightarrow> json option) \<Rightarrow> char \<Rightarrow> char \<Rightarrow> string \<Rightarrow> json option" where
  "app2_extract_json loads opn cls content =
     (let start = py_find opn content;
          fin = py_rfind cls content + 1
      in if start \<noteq> - 1 \<and> fin > start then loads (py_slice content start fin)
         else loads content)"

text \<open>\<^verbatim>\<open>remd.py\<close>, lines 86-88 and 154-156: the slice is decoded whatever the indices are.\<close>

definition remd_extract_json ::
  "(string \<Rightarrow> json option) \<Rightarrow> char \<Rightarrow> char \<Rightarrow> string \<Rightarrow> json option" where
  "remd_extract_json loads opn cls content =
     (let start = py_find opn content;
          fin = py_rfind cls content + 1
      in loads (py_slice content start fin))"

section \<open>Taste profile\<close>

text \<open>The profile built from the decoded reply; \<^verbatim>\<open>data.get\<close> needs a dictionary.\<close>

definition profile_of_data :: "json \<Rightarrow> py_error + TasteProfile" where
  "profile_of_data data =
     (case data of
        JObj d \<Rightarrow>
          Inr \<lparr> favorite_genres = dict_get d ''favorite_genres'' (JObj []),
                favorite_authors = dict_get d ''favorite_authors'' (JObj []),
                common_themes = dict_get d ''common_themes'' (JObj []),
                era_preferences = dict_get d ''era_preferences'' (JObj []),
                reading_level = dict_get d ''reading_level'' (JStr ''mixed''),
                diversity_score = dict_get d ''diversity_score'' (JNum (1 / 2)),
                summary = dict_get d ''summary'' (JStr '''') \<rparr>
      | _ \<Rightarrow> Inl AttributeError)"

subsection \<open>The fallback profile\<close>

text \<open>The counting loop of \<^verbatim>\<open>_create_basic_profile\<close>: genres, authors, themes.\<close>

definition count_book :: "Book \<Rightarrow> counter \<times> counter \<times> counter \<Rightarrow> counter \<times> counter \<times> counter" where
  "count_book b =
     (\<lambda>(genre_counter, author_counter, theme_counter).
        (counter_update genre_counter (genres b),
         counter_incr (author b) author_counter,
         counter_update theme_counter (themes b)))"

definition count_books :: "Book list \<Rightarrow> counter \<times> counter \<times> counter" where
  "count_books read_books = fold count_book read_books ([], [], [])"

text \<open>\<^verbatim>\<open>sum(genre_counter.values()) or 1\<close>.\<close>

definition total_genres :: "counter \<Rightarrow> nat" where
  "total_genres genre_counter =
     (let s = sum_list (map snd genre_counter) in if s = 0 then 1 else s)"

text \<open>\<^verbatim>\<open>{g: c/total_genres for g, c in genre_counter.most_common(5)}\<close>.\<close>

definition genre_weights :: "counter \<Rightarrow> (string \<times> rat) list" where
  "genre_weights genre_counter =
     map (\<lambda>(g, c). (g, of_nat c / of_nat (total_genres genre_counter)))
       (most_common 5 genre_counter)"

text \<open>\<^verbatim>\<open>dict(counter.most_common(5))\<close>.\<close>

definition top_counts :: "counter \<Rightarrow> json" where
  "top_counts c = JObj (map (\<lambda>(k, n). (k, JNum (of_nat n))) (most_common 5 c))"

definition app2_create_basic_profile :: "Book list \<Rightarrow> TasteProfile" where
  "app2_create_basic_profile read_books =
     (case count_books read_books of
        (genre_counter, author_counter, theme_counter) \<Rightarrow>
          \<lparr> favorite_genres = JObj (map (\<lambda>(g, w). (g, JNum w)) (genre_weights genre_counter)),
            favorite_authors = top_counts author_counter,
            common_themes = top_counts theme_counter,
            era_preferences = JObj [],
            reading_level = JStr ''mixed'',
            diversity_score =
              JNum (if read_books \<noteq> []
                    then of_nat (length genre_counter) / of_nat (length read_books)
                    else 0),
            summary =
              JStr (''Enjoys '' @ py_join '', '' (take 3 (map fst (genre_weights genre_counter)))
                    @ '' with favorite authors including ''
                    @ py_join '', '' (take 2 (map fst author_counter))) \<rparr>)"

text \<open>In \<^verbatim>\<open>remd.py\<close> the division by the number of books is not guarded.\<close>

definition remd_create_basic_profile :: "Book list \<Rightarrow> py_error + TasteProfile" where
  "remd_create_basic_profile read_books =
     (case count_books read_books of
        (genre_counter, author_counter, theme_counter) \<Rightarrow>
          if read_books = [] then Inl ZeroDivisionError
          else Inr
            \<lparr> favorite_genres = JObj (map (\<lambda>(g, w). (g, JNum w)) (genre_weights genre_counter)),
              favorite_authors = top_counts author_counter,
              common_themes = top_counts theme_counter,
              era_preferences = JObj [],
              reading_level = JStr ''mixed'',
              diversity_score =
                JNum (of_nat (length genre_counter) / of_nat (length read_books)),
              summary =
                JStr (''Enjoys ''
                      @ py_join '', '' (take 3 (map fst (genre_weights genre_counter)))) \<rparr>)"

subsection \<open>\<^verbatim>\<open>analyze_reading_taste\<close>\<close>

text \<open>
  In both files the backend call stands before the \<^verbatim>\<open>try\<close> block, so its
  exception leaves the function. \<^verbatim>\<open>app2.py\<close> catches \<^verbatim>\<open>JSONDecodeError\<close> around the
  extraction and the construction of the profile; \<^verbatim>\<open>remd.py\<close> catches every
  exception around the extraction only. Either way the decoder's failure is the one
  caught, and an \<^verbatim>\<open>AttributeError\<close> of \<^verbatim>\<open>data.get\<close> is not.
\<close>

definition app2_analyze_reading_taste ::
  "(string \<Rightarrow> json option) \<Rightarrow> backend \<Rightarrow> nat \<Rightarrow> Book list \<Rightarrow> (py_error + TasteProfile) \<times> nat" where
  "app2_analyze_reading_taste loads llm calls read_books =
     (if read_books = [] then
        (Inr \<lparr> favorite_genres = JObj [], favorite_authors = JObj [],
                common_themes = JObj [], era_preferences = JObj [],
                reading_level = JStr ''unknown'', diversity_score = JNum 0,
                summary = JStr ''No books read yet.'' \<rparr>, calls)
      else
        (case llm calls (TasteRequest read_books) of
           Inl e \<Rightarrow> (Inl e, Suc calls)
         | Inr content \<Rightarrow>
             (case app2_extract_json loads CHR ''{'' CHR ''}'' content of
                None \<Rightarrow> (Inr (app2_create_basic_profile read_books), Suc calls)
              | Some data \<Rightarrow> (profile_of_data data, Suc calls))))"

definition remd_analyze_reading_taste ::
  "(string \<Rightarrow> json option) \<Rightarrow> backend \<Rightarrow> nat \<Rightarrow> Book list \<Rightarrow> (py_error + TasteProfile) \<times> nat" where
  "remd_analyze_reading_taste loads llm calls read_books =
     (if read_books = [] then
        (Inr \<lparr> favorite_genres = JObj [], favorite_authors = JObj [],
                common_themes = JObj [], era_preferences = JObj [],
                reading_level = JStr ''unknown'', diversity_score = JNum 0,
                summary = JStr ''No books read yet.'' \<rparr>, calls)
      else
        (case llm calls (TasteRequest read_books) of
           Inl e \<Rightarrow> (Inl e, Suc calls)
         | Inr content \<Rightarrow>
             (case remd_extract_json loads CHR ''{'' CHR ''}'' content of
                None \<Rightarrow> (remd_create_basic_profile read_books, Suc calls)
              | Some data \<Rightarrow> (profile_of_data data, Suc calls))))"

section \<open>Scoring unread books\<close>

text \<open>\<^verbatim>\<open>{b.title: b for b in unread_books}\<close>: a later book with the same title wins.\<close>

definition book_lookup :: "Book list \<Rightarrow> string \<rightharpoonup> Book" where
  "book_lookup unread_books = map_of (rev (map (\<lambda>b. (title b, b)) unread_books))"

text \<open>
  \<^verbatim>\<open>book_lookup.get(t)\<close> for a decoded value \<open>t\<close>: a list or a dictionary is not
  hashable; a number, a boolean or \<^verbatim>\<open>None\<close> is, and equals no string.
\<close>

definition is_hashable :: "json \<Rightarrow> bool" where
  "is_hashable v = (case v of JArr _ \<Rightarrow> False | JObj _ \<Rightarrow> False | _ \<Rightarrow> True)"

definition lookup_get :: "(string \<rightharpoonup> Book) \<Rightarrow> json \<Rightarrow> py_error + Book option" where
  "lookup_get lk t =
     (if \<not> is_hashable t then Inl TypeError
      else (case t of JStr s \<Rightarrow> Inr (lk s) | _ \<Rightarrow> Inr None))"

text \<open>
  \<^verbatim>\<open>for score_data in scores_data\<close>: a list gives its elements, a dictionary its keys,
  a string its characters; anything else is not iterable.
\<close>

definition py_iter :: "json \<Rightarrow> py_error + json list" where
  "py_iter v =
     (case v of
        JArr xs \<Rightarrow> Inr xs
      | JObj d \<Rightarrow> Inr (map (\<lambda>kv. JStr (fst kv)) d)
      | JStr s \<Rightarrow> Inr (map (\<lambda>c. JStr [c]) s)
      | _ \<Rightarrow> Inl TypeError)"

definition make_score :: "Book \<Rightarrow> (string \<times> json) list \<Rightarrow> BookScore" where
  "make_score b d =
     \<lparr> book = b,
       overall_score = dict_get d ''overall_score'' (JNum 0),
       genre_match = dict_get d ''genre_match'' (JNum 0),
       theme_match = dict_get d ''theme_match'' (JNum 0),
       author_similarity = dict_get d ''author_similarity'' (JNum 0),
       novelty_score = dict_get d ''novelty_score'' (JNum 0),
       reasoning = dict_get d ''reasoning'' (JStr ''''),
       recommendation = dict_get d ''recommendation'' (JStr ''maybe'') \<rparr>"

text \<open>
  The loop over the decoded elements: \<^verbatim>\<open>score_data.get\<close> needs a dictionary, an
  element whose title finds no book is skipped, the others are appended in turn.
\<close>

fun collect_scores :: "(string \<rightharpoonup> Book) \<Rightarrow> json list \<Rightarrow> py_error + BookScore list" where
  "collect_scores lk [] = Inr []"
| "collect_scores lk (score_data # rest) =
     (case score_data of
        JObj d \<Rightarrow>
          (case lookup_get lk (dict_get d ''title'' (JStr '''')) of
             Inl e \<Rightarrow> Inl e
           | Inr None \<Rightarrow> collect_scores lk rest
           | Inr (Some b) \<Rightarrow>
               (case collect_scores lk rest of
                  Inl e \<Rightarrow> Inl e
                | Inr book_scores \<Rightarrow> Inr (make_score b d # book_scores)))
      | _ \<Rightarrow> Inl AttributeError)"

text \<open>
  \<^verbatim>\<open>sorted(xs, key=..., reverse=...)\<close> and \<^verbatim>\<open>xs.sort(key=..., reverse=...)\<close> belong to
  Python's library, so the sort is a parameter \<open>py_sorted\<close> of every definition below:
  it takes the key function, the \<^verbatim>\<open>reverse\<close> flag and the list, and gives the sorted
  list or the exception a comparison raises.
\<close>

type_synonym sorter = "(BookScore \<Rightarrow> json) \<Rightarrow> bool \<Rightarrow> BookScore list \<Rightarrow> py_error + BookScore list"

text \<open>
  \<^verbatim>\<open>book_scores.sort(key=lambda x: x.overall_score, reverse=True)\<close> in \<^verbatim>\<open>app2.py\<close>,
  \<^verbatim>\<open>sorted(book_scores, key=lambda x: x.overall_score, reverse=True)\<close> in \<^verbatim>\<open>remd.py\<close>.
\<close>

definition sort_scores :: "sorter \<Rightarrow> BookScore list \<Rightarrow> py_error + BookScore list" where
  "sort_scores py_sorted book_scores = py_sorted overall_score True book_scores"

text \<open>
  What both files do with the decoded reply: \<^verbatim>\<open>app2.py\<close> lines 276-298,
  \<^verbatim>\<open>remd.py\<close> lines 161-176.
\<close>

definition build_scores :: "sorter \<Rightarrow> Book list \<Rightarrow> json \<Rightarrow> py_error + BookScore list" where
  "build_scores py_sorted unread_books scores_data =
     (case py_iter scores_data of
        Inl e \<Rightarrow> Inl e
      | Inr elems \<Rightarrow>
          (case collect_scores (book_lookup unread_books) elems of
             Inl e \<Rightarrow> Inl e
           | Inr book_scores \<Rightarrow> sort_scores py_sorted book_scores))"

text \<open>
  The view of the profile that \<^verbatim>\<open>app2.py\<close> serialises: \<^verbatim>\<open>.keys()\<close> needs a
  dictionary.
\<close>

definition app2_profile_view :: "TasteProfile \<Rightarrow> py_error + json" where
  "app2_profile_view p =
     (case favorite_authors p of
        JObj fa \<Rightarrow>
          (case common_themes p of
             JObj ct \<Rightarrow>
               Inr (JObj [(''favorite_genres'', favorite_genres p),
                          (''favorite_authors'', JArr (map (\<lambda>kv. JStr (fst kv)) fa)),
                          (''common_themes'', JArr (map (\<lambda>kv. JStr (fst kv)) ct)),
                          (''reading_level'', reading_level p),
                          (''summary'', summary p)])
           | _ \<Rightarrow> Inl AttributeError)
      | _ \<Rightarrow> Inl AttributeError)"

text \<open>\<^verbatim>\<open>remd.py\<close> serialises \<^verbatim>\<open>asdict(taste_profile)\<close>.\<close>

definition remd_profile_view :: "TasteProfile \<Rightarrow> json" where
  "remd_profile_view p =
     JObj [(''favorite_genres'', favorite_genres p),
           (''favorite_authors'', favorite_authors p),
           (''common_themes'', common_themes p),
           (''era_preferences'', era_preferences p),
           (''reading_level'', reading_level p),
           (''diversity_score'', diversity_score p),
           (''summary'', summary p)]"

definition app2_score_unread_books ::
  "(string \<Rightarrow> json option) \<Rightarrow> sorter \<Rightarrow> backend \<Rightarrow> nat \<Rightarrow> TasteProfile \<Rightarrow> Book list
     \<Rightarrow> (py_error + BookScore list) \<times> nat" where
  "app2_score_unread_books loads py_sorted llm calls taste_profile unread_books =
     (if unread_books = [] then (Inr [], calls)
      else
        (case app2_profile_view taste_profile of
           Inl e \<Rightarrow> (Inl e, calls)
         | Inr view \<Rightarrow>
             (case llm calls (ScoreRequest view unread_books) of
                Inl e \<Rightarrow> (Inl e, Suc calls)
              | Inr content \<Rightarrow>
                  (case app2_extract_json loads CHR ''['' CHR '']'' content of
                     None \<Rightarrow> (Inr [], Suc calls)
                   | Some scores_data \<Rightarrow> (build_scores py_sorted unread_books scores_data, Suc calls)))))"

definition remd_score_unread_books ::
  "(string \<Rightarrow> json option) \<Rightarrow> sorter \<Rightarrow> backend \<Rightarrow> nat \<Rightarrow> TasteProfile \<Rightarrow> Book list
     \<Rightarrow> (py_error + BookScore list) \<times> nat" where
  "remd_score_unread_books loads py_sorted llm calls taste_profile unread_books =
     (if unread_books = [] then (Inr [], calls)
      else
        (case llm calls (ScoreRequest (remd_profile_view taste_profile) unread_books) of
           Inl e \<Rightarrow> (Inl e, Suc calls)
         | Inr content \<Rightarrow>
             (case remd_extract_json loads CHR ''['' CHR '']'' content of
                None \<Rightarrow> (Inr [], Suc calls)
              | Some scores_data \<Rightarrow> (build_scores py_sorted unread_books scores_data, Suc calls))))"

section \<open>Recommendations\<close>

text \<open>
  Both files declare \<^verbatim>\<open>top_n: int = 5\<close>: a caller may leave the argument out, and
  then it is 5, or give an integer or \<^verbatim>\<open>None\<close>.
\<close>

datatype top_n_arg = Unset | Given "int option"

definition top_n_value :: "top_n_arg \<Rightarrow> int option" where
  "top_n_value arg = (case arg of Unset \<Rightarrow> Some 5 | Given v \<Rightarrow> v)"

text \<open>
  \<^verbatim>\<open>app2.py\<close> slices only when \<^verbatim>\<open>top_n\<close> is not \<^verbatim>\<open>None\<close>; \<^verbatim>\<open>remd.py\<close> always
  slices, and \<^verbatim>\<open>xs[:None]\<close> is the whole list.
\<close>

definition py_prefix :: "'a list \<Rightarrow> int option \<Rightarrow> 'a list" where
  "py_prefix xs top_n = (case top_n of None \<Rightarrow> xs | Some n \<Rightarrow> py_slice xs 0 n)"

definition app2_get_recommendations ::
  "(string \<Rightarrow> json option) \<Rightarrow> sorter \<Rightarrow> backend \<Rightarrow> nat \<Rightarrow> Book list \<Rightarrow> Book list
     \<Rightarrow> top_n_arg \<Rightarrow> (py_error + TasteProfile \<times> BookScore list) \<times> nat" where
  "app2_get_recommendations loads py_sorted llm calls read_books unread_books top_n =
     (case app2_analyze_reading_taste loads llm calls read_books of
        (Inl e, calls1) \<Rightarrow> (Inl e, calls1)
      | (Inr taste_profile, calls1) \<Rightarrow>
          (case app2_score_unread_books loads py_sorted llm calls1 taste_profile unread_books of
             (Inl e, calls2) \<Rightarrow> (Inl e, calls2)
           | (Inr scored_books, calls2) \<Rightarrow>
               (Inr (taste_profile,
                     (case top_n_value top_n of
                        None \<Rightarrow> scored_books
                      | Some n \<Rightarrow> py_slice scored_books 0 n)),
                calls2)))"

definition remd_get_recommendations ::
  "(string \<Rightarrow> json option) \<Rightarrow> sorter \<Rightarrow> backend \<Rightarrow> nat \<Rightarrow> Book list \<Rightarrow> Book list
     \<Rightarrow> top_n_arg \<Rightarrow> (py_error + TasteProfile \<times> BookScore list) \<times> nat" where
  "remd_get_recommendations loads py_sorted llm calls read_books unread_books top_n =
     (case remd_analyze_reading_taste loads llm calls read_books of
        (Inl e, calls1) \<Rightarrow> (Inl e, calls1)
      | (Inr taste_profile, calls1) \<Rightarrow>
          (case remd_score_unread_books loads py_sorted llm calls1 taste_profile unread_books of
             (Inl e, calls2) \<Rightarrow> (Inl e, calls2)
           | (Inr scored_books, calls2) \<Rightarrow>
               (Inr (taste_profile, py_prefix scored_books (top_n_value top_n)), calls2)))"

section \<open>Python's order and a model of its sort\<close>

text \<open>
  The place of a number on the line that Python's comparisons order: \<^verbatim>\<open>-inf\<close> below
  every finite number, \<^verbatim>\<open>inf\<close> above, \<^verbatim>\<open>True\<close> and \<^verbatim>\<open>False\<close> the integers 1 and 0.
  \<^verbatim>\<open>nan\<close> has no place: every comparison with it is false. Pairs are ordered
  lexicographically.
\<close>

definition num_key :: "json \<Rightarrow> (int \<times> rat) option" where
  "num_key v =
     (case v of
        JNum q \<Rightarrow> Some (0, q)
      | JBool b \<Rightarrow> Some (0, if b then 1 else 0)
      | JInf up \<Rightarrow> Some (if up then 1 else - 1, 0)
      | _ \<Rightarrow> None)"

definition ord_key :: "json \<Rightarrow> int \<times> rat" where
  "ord_key v = (case num_key v of Some k \<Rightarrow> k | None \<Rightarrow> (0, 0))"

definition is_number :: "json \<Rightarrow> bool" where
  "is_number v =
     (case v of JNum _ \<Rightarrow> True | JBool _ \<Rightarrow> True | JNaN \<Rightarrow> True | JInf _ \<Rightarrow> True | _ \<Rightarrow> False)"

text \<open>Strings are compared character by character, by code.\<close>

fun str_lt :: "string \<Rightarrow> string \<Rightarrow> bool" where
  "str_lt [] [] = False"
| "str_lt [] (y # ys) = True"
| "str_lt (x # xs) [] = False"
| "str_lt (x # xs) (y # ys) =
     (if x = y then str_lt xs ys else (of_char x :: nat) < of_char y)"

text \<open>
  \<^verbatim>\<open>a == b\<close> as the comparison of two lists or two dictionaries evaluates it on their
  elements: numbers are equal by value, lists element by element, dictionaries (lists of
  items with distinct keys) key by key whatever the order of the keys, and values of
  different kinds are unequal. Every \<^verbatim>\<open>NaN\<close> that \<^verbatim>\<open>json.loads\<close> returns is the one
  object \<^verbatim>\<open>json.decoder.NaN\<close>, and containers take an element to be equal to itself,
  so inside a container \<^verbatim>\<open>NaN\<close> equals \<^verbatim>\<open>NaN\<close>.
\<close>

function py_same :: "json \<Rightarrow> json \<Rightarrow> bool"
  and py_same_list :: "json list \<Rightarrow> json list \<Rightarrow> bool"
  and py_same_items :: "(string \<times> json) list \<Rightarrow> (string \<times> json) list \<Rightarrow> bool" where
  "py_same a b =
     (case a of
        JArr xs \<Rightarrow> (case b of JArr ys \<Rightarrow> py_same_list xs ys | _ \<Rightarrow> False)
      | JObj d \<Rightarrow>
          (case b of
             JObj e \<Rightarrow> length d = length e \<and> py_same_items d e
           | _ \<Rightarrow> False)
      | JStr s \<Rightarrow> (case b of JStr t \<Rightarrow> s = t | _ \<Rightarrow> False)
      | JNull \<Rightarrow> b = JNull
      | JNaN \<Rightarrow> b = JNaN
      | _ \<Rightarrow> num_key b \<noteq> None \<and> num_key a = num_key b)"
| "py_same_list [] [] = True"
| "py_same_list [] (y # ys) = False"
| "py_same_list (x # xs) [] = False"
| "py_same_list (x # xs) (y # ys) = (py_same x y \<and> py_same_list xs ys)"
| "py_same_items [] e = True"
| "py_same_items (kv # d) e =
     ((case map_of e (fst kv) of None \<Rightarrow> False | Some w \<Rightarrow> py_same (snd kv) w)
      \<and> py_same_items d e)"
  by pat_completeness auto
termination
  by (relation "measure (\<lambda>x. case x of
        Inl (a, b) \<Rightarrow> Suc (size a)
      | Inr (Inl (xs, ys)) \<Rightarrow> size (JArr xs)
      | Inr (Inr (d, e)) \<Rightarrow> size (JObj d))")
    auto

declare py_same.simps [simp del]

text \<open>
  \<^verbatim>\<open>a < b\<close>. Two numbers are compared by value, and no comparison with \<^verbatim>\<open>NaN\<close>
  holds; two strings are compared as above; two lists are compared at the first position
  where their elements are not equal, or by length when one is the beginning of the
  other. For \<^verbatim>\<open>None\<close>, for dictionaries and for values of different kinds Python
  raises \<^verbatim>\<open>TypeError\<close>.
\<close>

function py_lt :: "json \<Rightarrow> json \<Rightarrow> py_error + bool"
  and py_lt_list :: "json list \<Rightarrow> json list \<Rightarrow> py_error + bool" where
  "py_lt a b =
     (if is_number a \<and> is_number b then
        Inr (case num_key a of
               None \<Rightarrow> False
             | Some x \<Rightarrow> (case num_key b of None \<Rightarrow> False | Some y \<Rightarrow> x < y))
      else
        (case a of
           JStr s \<Rightarrow> (case b of JStr t \<Rightarrow> Inr (str_lt s t) | _ \<Rightarrow> Inl TypeError)
         | JArr xs \<Rightarrow> (case b of JArr ys \<Rightarrow> py_lt_list xs ys | _ \<Rightarrow> Inl TypeError)
         | _ \<Rightarrow> Inl TypeError))"
| "py_lt_list [] [] = Inr False"
| "py_lt_list [] (y # ys) = Inr True"
| "py_lt_list (x # xs) [] = Inr False"
| "py_lt_list (x # xs) (y # ys) = (if py_same x y then py_lt_list xs ys else py_lt x y)"
  by pat_completeness auto
termination
  by (relation "measure (\<lambda>x. case x of
        Inl (a, b) \<Rightarrow> Suc (size a)
      | Inr (xs, ys) \<Rightarrow> size (JArr xs))")
    auto

declare py_lt.simps [simp del]

text \<open>
  \<^verbatim>\<open>count_run\<close> of CPython 3.11's \<^verbatim>\<open>listobject.c\<close>: the length of the run the keys
  start with, and whether it is strictly descending. \<open>run_up prev ks\<close> counts how far
  the keys after \<open>prev\<close> go on without a descent, \<open>run_down\<close> how far they go on
  descending.
\<close>

fun run_up :: "json \<Rightarrow> json list \<Rightarrow> py_error + nat" where
  "run_up prev [] = Inr 0"
| "run_up prev (k # ks) =
     (case py_lt k prev of
        Inl e \<Rightarrow> Inl e
      | Inr True \<Rightarrow> Inr 0
      | Inr False \<Rightarrow> (case run_up k ks of Inl e \<Rightarrow> Inl e | Inr n \<Rightarrow> Inr (Suc n)))"

fun run_down :: "json \<Rightarrow> json list \<Rightarrow> py_error + nat" where
  "run_down prev [] = Inr 0"
| "run_down prev (k # ks) =
     (case py_lt k prev of
        Inl e \<Rightarrow> Inl e
      | Inr False \<Rightarrow> Inr 0
      | Inr True \<Rightarrow> (case run_down k ks of Inl e \<Rightarrow> Inl e | Inr n \<Rightarrow> Inr (Suc n)))"

fun count_run :: "json list \<Rightarrow> py_error + nat \<times> bool" where
  "count_run [] = Inr (0, False)"
| "count_run [k] = Inr (1, False)"
| "count_run (k # k' # ks) =
     (case py_lt k' k of
        Inl e \<Rightarrow> Inl e
      | Inr True \<Rightarrow> (case run_down k' ks of Inl e \<Rightarrow> Inl e | Inr n \<Rightarrow> Inr (n + 2, True))
      | Inr False \<Rightarrow> (case run_up k' ks of Inl e \<Rightarrow> Inl e | Inr n \<Rightarrow> Inr (n + 2, False)))"

text \<open>
  The binary search of \<^verbatim>\<open>binarysort\<close>: where \<open>pivot\<close> goes among the sorted keys
  \<open>ks\<close>, between the positions \<open>l\<close> and \<open>r\<close>.
\<close>

function bisect :: "json \<Rightarrow> json list \<Rightarrow> nat \<Rightarrow> nat \<Rightarrow> py_error + nat" where
  "bisect pivot ks l r =
     (if l < r then
        (case py_lt pivot (ks ! (l + (r - l) div 2)) of
           Inl e \<Rightarrow> Inl e
         | Inr True \<Rightarrow> bisect pivot ks l (l + (r - l) div 2)
         | Inr False \<Rightarrow> bisect pivot ks (Suc (l + (r - l) div 2)) r)
      else Inr l)"
  by pat_completeness auto
termination
  by (relation "measure (\<lambda>(pivot, ks, l, r). r - l)") auto

declare bisect.simps [simp del]

text \<open>\<^verbatim>\<open>binarysort\<close>: each further element is inserted where the search puts it.\<close>

fun insert_rest :: "(json \<times> 'a) list \<Rightarrow> (json \<times> 'a) list \<Rightarrow> py_error + (json \<times> 'a) list" where
  "insert_rest done [] = Inr done"
| "insert_rest done (x # xs) =
     (case bisect (fst x) (map fst done) 0 (length done) of
        Inl e \<Rightarrow> Inl e
      | Inr l \<Rightarrow> insert_rest (take l done @ x # drop l done) xs)"

text \<open>
  The ascending sort of a list shorter than 64 elements, each with its key: the first
  run, turned round when it descends, and then the binary insertions.
\<close>

definition sort_ascending :: "(json \<times> 'a) list \<Rightarrow> py_error + (json \<times> 'a) list" where
  "sort_ascending keyed =
     (case count_run (map fst keyed) of
        Inl e \<Rightarrow> Inl e
      | Inr (n, down) \<Rightarrow>
          insert_rest (if down then rev (take n keyed) else take n keyed) (drop n keyed))"

text \<open>
  The sort used in the closed examples. With \<^verbatim>\<open>reverse=True\<close> CPython turns the list
  round, sorts it in ascending order and turns the result round. When every key is a
  number other than \<^verbatim>\<open>nan\<close> the keys are totally ordered and Python's sort is the
  stable sort, whatever the length of the list. For other keys the model runs what
  CPython 3.11 runs on a list shorter than 64 elements, so it is only ever applied to
  the short lists of the examples.
\<close>

definition cpython_sorted :: "('a \<Rightarrow> json) \<Rightarrow> bool \<Rightarrow> 'a list \<Rightarrow> py_error + 'a list" where
  "cpython_sorted key reverse xs =
     (let ys = (if reverse then rev xs else xs)
      in case (if list_all (\<lambda>x. num_key (key x) \<noteq> None) ys
               then Inr (sort_key (\<lambda>x. ord_key (key x)) ys)
               else (case sort_ascending (map (\<lambda>x. (key x, x)) ys) of
                       Inl e \<Rightarrow> Inl e
                     | Inr keyed \<Rightarrow> Inr (map snd keyed))) of
           Inl e \<Rightarrow> Inl e
         | Inr zs \<Rightarrow> Inr (if reverse then rev zs else zs))"

section \<open>Example data\<close>

text \<open>The books of the \<^verbatim>\<open>__main__\<close> block of \<^verbatim>\<open>remd.py\<close>.\<close>

definition orwell_1984 :: Book where
  "orwell_1984 =
     \<lparr> title = ''1984'', author = ''George Orwell'',
       genres = [''Dystopian'', ''Political Fiction''],
       themes = [''Totalitarianism'', ''Surveillance''],
       year = Some 1949, description = None \<rparr>"

definition brave_new_world :: Book where
  "brave_new_world =
     \<lparr> title = ''Brave New World'', author = ''Aldous Huxley'',
       genres = [''Dystopian''], themes = [''Technology'', ''Control''],
       year = Some 1932, description = None \<rparr>"

definition handmaids_tale :: Book where
  "handmaids_tale =
     \<lparr> title = ''The Handmaid's Tale'', author = ''Margaret Atwood'',
       genres = [''Dystopian''], themes = [''Oppression'', ''Gender''],
       year = Some 1985, description = None \<rparr>"

definition dystopian_shelf :: "Book list" where
  "dystopian_shelf = [orwell_1984, brave_new_world, handmaids_tale]"

text \<open>Unread books with one-letter titles.\<close>

definition plain_book :: "string \<Rightarrow> Book" where
  "plain_book t =
     \<lparr> title = t, author = ''Anon'', genres = [], themes = [],
       year = None, description = None \<rparr>"

definition shelf_abc :: "Book list" where
  "shelf_abc = [plain_book ''A'', plain_book ''B'', plain_book ''C'']"

definition shelf_abcde :: "Book list" where
  "shelf_abcde =
     [plain_book ''A'', plain_book ''B'', plain_book ''C'', plain_book ''D'', plain_book ''E'']"

text \<open>Replies of the backend.\<close>

definition reply_object :: string where
  \<open>reply_object = ''Here is the result:\<newline>{"a":1}\<newline>Thanks!''\<close>

definition reply_prose :: string where
  "reply_prose = ''not json at all''"

definition reply_number :: string where
  "reply_number = ''123''"


definition reply_abcde :: string where
  \<open>reply_abcde = ''Scores: [{"title":"A","overall_score":40},{"title":"B","overall_score":95},{"title":"C","overall_score":70},{"title":"D","overall_score":10},{"title":"E","overall_score":85}]''\<close>

definition reply_stranger :: string where
  \<open>reply_stranger = ''[{"title":"A","overall_score":40},{"title":"Z","overall_score":99}]''\<close>


definition reply_profile :: string where
  \<open>reply_profile = ''{"favorite_genres":{"Dystopian":1},"summary":"Likes dystopias"}''\<close>

text \<open>A backend whose every call fails, and one that answers from a list of replies.\<close>

definition failing_backend :: backend where
  "failing_backend calls req = Inl GenerationError"

definition scripted_backend :: "string list \<Rightarrow> backend" where
  "scripted_backend replies calls req =
     (if calls < length replies then Inr (replies ! calls) else Inl GenerationError)"

text \<open>The profile that \<open>reply_profile\<close> decodes to: absent fields take their defaults.\<close>

definition profile_of_reply :: TasteProfile where
  "profile_of_reply =
     \<lparr> favorite_genres = JObj [(''Dystopian'', JNum 1)],
       favorite_authors = JObj [], common_themes = JObj [], era_preferences = JObj [],
       reading_level = JStr ''mixed'', diversity_score = JNum (1 / 2),
       summary = JStr ''Likes dystopias'' \<rparr>"

text \<open>Six unread books, and replies that score them.\<close>

definition shelf_abcdef :: "Book list" where
  "shelf_abcdef =
     [plain_book ''A'', plain_book ''B'', plain_book ''C'', plain_book ''D'', plain_book ''E'',
      plain_book ''F'']"

definition reply_abcdef :: string where
  \<open>reply_abcdef = ''[{"title":"A","overall_score":40},{"title":"B","overall_score":95},{"title":"C","overall_score":70},{"title":"D","overall_score":10},{"title":"E","overall_score":85},{"title":"F","overall_score":60}]''\<close>



definition reply_dune :: string where
  \<open>reply_dune = ''[{"title":["Dune"],"overall_score":50}]''\<close>

text \<open>Replies whose scores are strings, and a number and a string.\<close>

definition reply_strings :: string where
  \<open>reply_strings = ''[{"title":"A","overall_score":"85"},{"title":"B","overall_score":"9"},{"title":"C","overall_score":"100"}]''\<close>

definition reply_mixed :: string where
  \<open>reply_mixed = ''[{"title":"A","overall_score":85},{"title":"B","overall_score":"9"}]''\<close>

section \<open>Properties named by the specification\<close>

text \<open>
  "The top \<open>n\<close> of \<open>xs\<close> by count": \<open>ks\<close> lists different elements of \<open>xs\<close>, as many
  as \<open>n\<close> allows, in descending order of their number of occurrences in \<open>xs\<close>, and
  no element left out occurs more often than a listed one.
\<close>

definition top_by_count :: "nat \<Rightarrow> string list \<Rightarrow> string list \<Rightarrow> bool" where
  "top_by_count n xs ks =
     (distinct ks \<and> set ks \<subseteq> set xs \<and> length ks = min n (card (set xs))
      \<and> sorted_wrt (\<lambda>a b. count_list xs b \<le> count_list xs a) ks
      \<and> (\<forall>a \<in> set ks. \<forall>b \<in> set xs - set ks. count_list xs b \<le> count_list xs a))"

text \<open>
  A dictionary whose keys are the top \<open>n\<close> of \<open>xs\<close> by count and whose value at a key
  is the number \<open>weight k\<close>.
\<close>

definition top_dict :: "nat \<Rightarrow> string list \<Rightarrow> (string \<Rightarrow> rat) \<Rightarrow> json \<Rightarrow> bool" where
  "top_dict n xs weight v =
     (case v of
        JObj d \<Rightarrow> top_by_count n xs (map fst d) \<and> (\<forall>(k, w) \<in> set d. w = JNum (weight k))
      | _ \<Rightarrow> False)"

text \<open>
  The fallback profile as the specification describes it, for the genres, authors and
  themes of the books read, each with its repetitions.
\<close>

definition basic_profile_spec :: "Book list \<Rightarrow> TasteProfile \<Rightarrow> bool" where
  "basic_profile_spec read_books p =
     (let all_genres = concat (map genres read_books);
          all_authors = map author read_books;
          all_themes = concat (map themes read_books)
      in top_dict 5 all_genres
           (\<lambda>g. of_nat (count_list all_genres g) / of_nat (length all_genres))
           (favorite_genres p)
         \<and> top_dict 5 all_authors (\<lambda>a. of_nat (count_list all_authors a)) (favorite_authors p)
         \<and> top_dict 5 all_themes (\<lambda>t. of_nat (count_list all_themes t)) (common_themes p)
         \<and> diversity_score p
             = JNum (of_nat (card (set all_genres)) / of_nat (length read_books))
         \<and> reading_level p = JStr ''mixed'')"

text \<open>A counter that holds the counts of the elements of \<open>xs\<close>.\<close>

definition counts :: "counter \<Rightarrow> string list \<Rightarrow> bool" where
  "counts c xs =
     (distinct (map fst c) \<and> sum_list (map snd c) = length xs
      \<and> (\<forall>k. map_of c k = (if k \<in> set xs then Some (count_list xs k) else None)))"

text \<open>
  The elements of a decoded scoring reply. \<open>entry_title\<close> is the title an element
  names, \<^verbatim>\<open>score_data.get("title", "")\<close>. An element is an entry when the loop can
  look its title up: it is a dictionary and its title is hashable. It matches when its
  title is, character for character, the title of an unread book.
\<close>

definition entry_title :: "json \<Rightarrow> json" where
  "entry_title e = (case e of JObj d \<Rightarrow> dict_get d ''title'' (JStr '''') | _ \<Rightarrow> JNull)"

definition is_entry :: "json \<Rightarrow> bool" where
  "is_entry e = (case e of JObj d \<Rightarrow> is_hashable (dict_get d ''title'' (JStr '''')) | _ \<Rightarrow> False)"

definition title_matches :: "Book list \<Rightarrow> json \<Rightarrow> bool" where
  "title_matches unread_books e =
     (is_entry e \<and> entry_title e \<in> (\<lambda>b. JStr (title b)) ` set unread_books)"

text \<open>The score record one element gives, if it matches a book.\<close>

definition entry_score :: "Book list \<Rightarrow> json \<Rightarrow> BookScore option" where
  "entry_score unread_books e =
     (case e of
        JObj d \<Rightarrow>
          (case dict_get d ''title'' (JStr '''') of
             JStr t \<Rightarrow> map_option (\<lambda>b. make_score b d) (book_lookup unread_books t)
           | _ \<Rightarrow> None)
      | _ \<Rightarrow> None)"

text \<open>The scores of the matching elements of a reply, in the order of the reply.\<close>

definition matched_scores :: "Book list \<Rightarrow> json list \<Rightarrow> BookScore list" where
  "matched_scores unread_books elems = List.map_filter (entry_score unread_books) elems"

text \<open>The titles of a list of scores, in order.\<close>

definition score_titles :: "BookScore list \<Rightarrow> string list" where
  "score_titles book_scores = map (\<lambda>s. title (book s)) book_scores"

text \<open>
  Order of scores. A score is ordered when its \<^verbatim>\<open>overall_score\<close> is a number other
  than \<^verbatim>\<open>nan\<close>, and \<open>overall\<close> is then its place on the line. \<open>py_ge a b\<close> is
  \<^verbatim>\<open>a >= b\<close> for numbers as Python evaluates it, false when one of them is \<^verbatim>\<open>nan\<close>.
  A list of scores is descending when every score is \<^verbatim>\<open>>=\<close> every later one.
\<close>

definition ordered_score :: "BookScore \<Rightarrow> bool" where
  "ordered_score s = (num_key (overall_score s) \<noteq> None)"

definition overall :: "BookScore \<Rightarrow> int \<times> rat" where
  "overall s = ord_key (overall_score s)"

definition py_ge :: "json \<Rightarrow> json \<Rightarrow> bool" where
  "py_ge a b =
     (case num_key a of
        None \<Rightarrow> False
      | Some x \<Rightarrow> (case num_key b of None \<Rightarrow> False | Some y \<Rightarrow> y \<le> x))"

definition descending :: "BookScore list \<Rightarrow> bool" where
  "descending book_scores =
     sorted_wrt (\<lambda>a b. py_ge (overall_score a) (overall_score b)) book_scores"

text \<open>
  What Python's documentation says of \<^verbatim>\<open>sorted\<close> and \<^verbatim>\<open>list.sort\<close>, as far as the
  theorems rely on it. The result is a rearrangement of the list. And the sort is
  stable: a list of scores that are all ordered comes out, with \<^verbatim>\<open>reverse=True\<close>, in
  descending order with equal scores in their original order.
\<close>

definition sort_permutes :: "sorter \<Rightarrow> bool" where
  "sort_permutes py_sorted =
     (\<forall>key reverse xs out. py_sorted key reverse xs = Inr out \<longrightarrow> mset out = mset xs)"

definition sort_orders_numbers :: "sorter \<Rightarrow> bool" where
  "sort_orders_numbers py_sorted =
     (\<forall>xs. list_all ordered_score xs \<longrightarrow>
           py_sorted overall_score True xs = Inr (py_sorted_desc overall xs))"

text \<open>The decoded replies of the examples.\<close>

definition entry :: "string \<Rightarrow> json \<Rightarrow> json" where
  "entry t v = JObj [(''title'', JStr t), (''overall_score'', v)]"

definition scores_abc :: json where
  "scores_abc = JArr [entry ''A'' (JNum 40), entry ''B'' (JNum 95), entry ''C'' (JNum 70)]"



definition scores_stranger :: json where
  "scores_stranger = JArr [entry ''A'' (JNum 40), entry ''Z'' (JNum 99)]"

definition scores_twice :: json where
  "scores_twice = JArr [entry ''A'' (JNum 40), entry ''A'' (JNum 60)]"

definition scores_dune :: json where
  "scores_dune = JArr [JObj [(''title'', JArr [JStr ''Dune'']), (''overall_score'', JNum 50)]]"

text \<open>
  The scoring call of a file decodes to \<open>scores_data\<close>: the prompt can be built, the
  backend answers it, and the decoder accepts the text extracted from the reply.
\<close>

definition app2_decodes ::
  "(string \<Rightarrow> json option) \<Rightarrow> backend \<Rightarrow> nat \<Rightarrow> TasteProfile \<Rightarrow> Book list \<Rightarrow> json \<Rightarrow> bool" where
  "app2_decodes loads llm calls p unread_books scores_data =
     (\<exists>view content. app2_profile_view p = Inr view
        \<and> llm calls (ScoreRequest view unread_books) = Inr content
        \<and> app2_extract_json loads CHR ''['' CHR '']'' content = Some scores_data)"

definition remd_decodes ::
  "(string \<Rightarrow> json option) \<Rightarrow> backend \<Rightarrow> nat \<Rightarrow> TasteProfile \<Rightarrow> Book list \<Rightarrow> json \<Rightarrow> bool" where
  "remd_decodes loads llm calls p unread_books scores_data =
     (\<exists>content. llm calls (ScoreRequest (remd_profile_view p) unread_books) = Inr content
        \<and> remd_extract_json loads CHR ''['' CHR '']'' content = Some scores_data)"

section \<open>Empty inputs\<close>

text \<open>
  C7. For an empty list of read books the profile builder returns the sentinel profile
  (four empty mappings, reading level "unknown", diversity score 0, summary
  "No books read yet.") and the number of backend calls is unchanged: no call is made.
  This holds in \<^verbatim>\<open>app2.py\<close> and in \<^verbatim>\<open>remd.py\<close>, for every decoder and backend.
\<close>

theorem analyze_reading_taste_no_books:
  "app2_analyze_reading_taste loads llm calls [] =
     (Inr \<lparr> favorite_genres = JObj [], favorite_authors = JObj [],
             common_themes = JObj [], era_preferences = JObj [],
             reading_level = JStr ''unknown'', diversity_score = JNum 0,
             summary = JStr ''No books read yet.'' \<rparr>, calls)
   \<and> remd_analyze_reading_taste loads llm calls [] =
     (Inr \<lparr> favorite_genres = JObj [], favorite_authors = JObj [],
             common_themes = JObj [], era_preferences = JObj [],
             reading_level = JStr ''unknown'', diversity_score = JNum 0,
             summary = JStr ''No books read yet.'' \<rparr>, calls)"
  by (simp add: app2_analyze_reading_taste_def remd_analyze_reading_taste_def)

text \<open>
  C8. For every profile and an empty list of unread books, scoring returns the empty
  list and the number of backend calls is unchanged: no call is made. This holds in
  both files, also for a profile whose fields are not dictionaries.
\<close>

theorem score_unread_books_no_books:
  "app2_score_unread_books loads py_sorted llm calls taste_profile [] = (Inr [], calls)
   \<and> remd_score_unread_books loads py_sorted llm calls taste_profile [] = (Inr [], calls)"
  by (simp add: app2_score_unread_books_def remd_score_unread_books_def)

section \<open>Failures of the backend and of the decoder\<close>

lemma py_slice_Nil [simp]: "py_slice [] i j = []"
  by (simp add: py_slice_def)

text \<open>
  C2, as the spec states it: for non-empty read books, a failure of the backend during
  profile construction gives the basic profile, as a failed decoding does. It does not:
  with a backend whose call raises, both files let the exception through and return no
  profile.
\<close>

theorem analyze_generation_error_counterexample:
  "dystopian_shelf \<noteq> []
   \<and> failing_backend 0 (TasteRequest dystopian_shelf) = Inl GenerationError
   \<and> fst (app2_analyze_reading_taste json_loads failing_backend 0 dystopian_shelf)
       = Inl GenerationError
   \<and> fst (app2_analyze_reading_taste json_loads failing_backend 0 dystopian_shelf)
       \<noteq> Inr (app2_create_basic_profile dystopian_shelf)
   \<and> fst (remd_analyze_reading_taste json_loads failing_backend 0 dystopian_shelf)
       = Inl GenerationError
   \<and> fst (remd_analyze_reading_taste json_loads failing_backend 0 dystopian_shelf)
       \<noteq> remd_create_basic_profile dystopian_shelf"
  by (simp add: app2_analyze_reading_taste_def remd_analyze_reading_taste_def
      failing_backend_def dystopian_shelf_def remd_create_basic_profile_def
      split: prod.splits)

text \<open>
  C2, amended: for non-empty read books, an exception of the backend call leaves the
  profile builder after that one call (it is not caught), in both files. Only a reply
  whose extracted text the decoder rejects gives the basic profile, and in
  \<^verbatim>\<open>remd.py\<close> that profile exists because the list is not empty.
\<close>

theorem analyze_reading_taste_failures:
  assumes "read_books \<noteq> []"
  shows "(llm calls (TasteRequest read_books) = Inl e \<longrightarrow>
            app2_analyze_reading_taste loads llm calls read_books = (Inl e, Suc calls)
            \<and> remd_analyze_reading_taste loads llm calls read_books = (Inl e, Suc calls))
       \<and> (llm calls (TasteRequest read_books) = Inr content
            \<and> app2_extract_json loads CHR ''{'' CHR ''}'' content = None \<longrightarrow>
            app2_analyze_reading_taste loads llm calls read_books
              = (Inr (app2_create_basic_profile read_books), Suc calls))
       \<and> (llm calls (TasteRequest read_books) = Inr content
            \<and> remd_extract_json loads CHR ''{'' CHR ''}'' content = None \<longrightarrow>
            (\<exists>p. remd_create_basic_profile read_books = Inr p
               \<and> remd_analyze_reading_taste loads llm calls read_books = (Inr p, Suc calls)))"
  using assms
  by (simp add: app2_analyze_reading_taste_def remd_analyze_reading_taste_def
      remd_create_basic_profile_def split: prod.splits)

theorem analyze_reading_taste_failures_witness:
  "app2_analyze_reading_taste json_loads failing_backend 0 dystopian_shelf
     = (Inl GenerationError, 1)
   \<and> remd_analyze_reading_taste json_loads failing_backend 0 dystopian_shelf
     = (Inl GenerationError, 1)
   \<and> app2_analyze_reading_taste json_loads (scripted_backend [reply_prose]) 0 dystopian_shelf
     = (Inr (app2_create_basic_profile dystopian_shelf), 1)
   \<and> (\<exists>p. remd_create_basic_profile dystopian_shelf = Inr p
        \<and> remd_analyze_reading_taste json_loads (scripted_backend [reply_prose]) 0 dystopian_shelf
            = (Inr p, 1))"
proof -
  have ne: "dystopian_shelf \<noteq> []"
    by (simp add: dystopian_shelf_def)
  have down: "failing_backend 0 (TasteRequest dystopian_shelf) = Inl GenerationError"
    by (simp add: failing_backend_def)
  have up: "scripted_backend [reply_prose] 0 (TasteRequest dystopian_shelf) = Inr reply_prose"
    by (simp add: scripted_backend_def)
  have bad2: "app2_extract_json json_loads CHR ''{'' CHR ''}'' reply_prose = None"
    by code_simp
  have badr: "remd_extract_json json_loads CHR ''{'' CHR ''}'' reply_prose = None"
    by code_simp
  from analyze_reading_taste_failures [OF ne, where llm = failing_backend and calls = 0
      and e = GenerationError and loads = json_loads] down
  have a: "app2_analyze_reading_taste json_loads failing_backend 0 dystopian_shelf
             = (Inl GenerationError, 1)
           \<and> remd_analyze_reading_taste json_loads failing_backend 0 dystopian_shelf
             = (Inl GenerationError, 1)"
    by simp
  from analyze_reading_taste_failures [OF ne, where llm = "scripted_backend [reply_prose]"
      and calls = 0 and content = reply_prose and loads = json_loads] up bad2 badr
  have b: "app2_analyze_reading_taste json_loads (scripted_backend [reply_prose]) 0 dystopian_shelf
             = (Inr (app2_create_basic_profile dystopian_shelf), 1)
           \<and> (\<exists>p. remd_create_basic_profile dystopian_shelf = Inr p
                \<and> remd_analyze_reading_taste json_loads (scripted_backend [reply_prose]) 0
                     dystopian_shelf = (Inr p, 1))"
    by simp
  from a b show ?thesis by simp
qed

text \<open>
  C3, as the spec states it: for non-empty unread books, a failure of the backend call
  makes scoring return the empty list, and no caller of \<^verbatim>\<open>get_recommendations\<close>
  receives an error. It does not: both files let the exception through, out of scoring
  and out of \<^verbatim>\<open>get_recommendations\<close>.
\<close>

theorem score_generation_error_counterexample:
  "shelf_abc \<noteq> []
   \<and> fst (app2_score_unread_books json_loads cpython_sorted failing_backend 0
            (app2_create_basic_profile dystopian_shelf) shelf_abc) = Inl GenerationError
   \<and> fst (app2_score_unread_books json_loads cpython_sorted failing_backend 0
            (app2_create_basic_profile dystopian_shelf) shelf_abc) \<noteq> Inr []
   \<and> fst (remd_score_unread_books json_loads cpython_sorted failing_backend 0
            (app2_create_basic_profile dystopian_shelf) shelf_abc) = Inl GenerationError
   \<and> fst (app2_get_recommendations json_loads cpython_sorted (scripted_backend [reply_profile]) 0
            dystopian_shelf shelf_abc (Given (Some 5))) = Inl GenerationError
   \<and> fst (remd_get_recommendations json_loads cpython_sorted (scripted_backend [reply_profile]) 0
            dystopian_shelf shelf_abc (Given (Some 5))) = Inl GenerationError"
  by code_simp

lemma remd_create_basic_profile_Inr:
  "read_books \<noteq> [] \<Longrightarrow> \<exists>p. remd_create_basic_profile read_books = Inr p"
  by (cases "count_books read_books") (simp add: remd_create_basic_profile_def)

lemma app2_profile_view_basic:
  "\<exists>view. app2_profile_view (app2_create_basic_profile read_books) = Inr view"
  by (cases "count_books read_books")
    (simp add: app2_profile_view_def app2_create_basic_profile_def top_counts_def)

text \<open>
  C3, amended: for non-empty unread books (and, in \<^verbatim>\<open>app2.py\<close>, a profile whose
  authors and themes are dictionaries, so that the prompt can be built), a reply whose
  extracted text the decoder rejects makes scoring return the empty list after the one
  call, and \<^verbatim>\<open>get_recommendations\<close> then returns the profile with an empty list.
  An exception of the backend call is not caught: it leaves scoring, and it leaves
  \<^verbatim>\<open>get_recommendations\<close>.
\<close>

theorem score_unread_books_failures:
  assumes "unread_books \<noteq> []"
  shows "(app2_profile_view p = Inr view
            \<and> llm calls (ScoreRequest view unread_books) = Inr content
            \<and> app2_extract_json loads CHR ''['' CHR '']'' content = None \<longrightarrow>
            app2_score_unread_books loads py_sorted llm calls p unread_books = (Inr [], Suc calls))
       \<and> (llm calls (ScoreRequest (remd_profile_view p) unread_books) = Inr content
            \<and> remd_extract_json loads CHR ''['' CHR '']'' content = None \<longrightarrow>
            remd_score_unread_books loads py_sorted llm calls p unread_books = (Inr [], Suc calls))
       \<and> (app2_profile_view p = Inr view
            \<and> llm calls (ScoreRequest view unread_books) = Inl e \<longrightarrow>
            app2_score_unread_books loads py_sorted llm calls p unread_books = (Inl e, Suc calls))
       \<and> (llm calls (ScoreRequest (remd_profile_view p) unread_books) = Inl e \<longrightarrow>
            remd_score_unread_books loads py_sorted llm calls p unread_books = (Inl e, Suc calls))
       \<and> (app2_analyze_reading_taste loads llm calls_in read_books = (Inr p, calls)
            \<and> app2_score_unread_books loads py_sorted llm calls p unread_books = (Inr [], calls_out)
            \<longrightarrow> app2_get_recommendations loads py_sorted llm calls_in read_books unread_books top_n
                  = (Inr (p, []), calls_out))
       \<and> (remd_analyze_reading_taste loads llm calls_in read_books = (Inr p, calls)
            \<and> remd_score_unread_books loads py_sorted llm calls p unread_books = (Inr [], calls_out)
            \<longrightarrow> remd_get_recommendations loads py_sorted llm calls_in read_books unread_books top_n
                  = (Inr (p, []), calls_out))
       \<and> (app2_analyze_reading_taste loads llm calls_in read_books = (Inr p, calls)
            \<and> app2_score_unread_books loads py_sorted llm calls p unread_books = (Inl e, calls_out)
            \<longrightarrow> app2_get_recommendations loads py_sorted llm calls_in read_books unread_books top_n
                  = (Inl e, calls_out))
       \<and> (remd_analyze_reading_taste loads llm calls_in read_books = (Inr p, calls)
            \<and> remd_score_unread_books loads py_sorted llm calls p unread_books = (Inl e, calls_out)
            \<longrightarrow> remd_get_recommendations loads py_sorted llm calls_in read_books unread_books top_n
                  = (Inl e, calls_out))"
  using assms
  by (auto simp add: app2_score_unread_books_def remd_score_unread_books_def
      app2_get_recommendations_def remd_get_recommendations_def py_prefix_def
      split: option.splits)

theorem score_unread_books_failures_witness:
  "app2_score_unread_books json_loads cpython_sorted (scripted_backend [reply_prose]) 0
       (app2_create_basic_profile dystopian_shelf) shelf_abc = (Inr [], 1)
   \<and> remd_score_unread_books json_loads cpython_sorted (scripted_backend [reply_prose]) 0
       (app2_create_basic_profile dystopian_shelf) shelf_abc = (Inr [], 1)
   \<and> app2_score_unread_books json_loads cpython_sorted failing_backend 0
       (app2_create_basic_profile dystopian_shelf) shelf_abc = (Inl GenerationError, 1)
   \<and> remd_score_unread_books json_loads cpython_sorted failing_backend 0
       (app2_create_basic_profile dystopian_shelf) shelf_abc = (Inl GenerationError, 1)
   \<and> app2_get_recommendations json_loads cpython_sorted (scripted_backend [reply_prose, reply_prose]) 0
       dystopian_shelf shelf_abc (Given (Some 5))
       = (Inr (app2_create_basic_profile dystopian_shelf, []), 2)
   \<and> (\<exists>p. remd_create_basic_profile dystopian_shelf = Inr p
        \<and> remd_get_recommendations json_loads cpython_sorted (scripted_backend [reply_prose, reply_prose]) 0
             dystopian_shelf shelf_abc (Given (Some 5)) = (Inr (p, []), 2))
   \<and> app2_get_recommendations json_loads cpython_sorted (scripted_backend [reply_prose]) 0
       dystopian_shelf shelf_abc (Given (Some 5)) = (Inl GenerationError, 2)
   \<and> remd_get_recommendations json_loads cpython_sorted (scripted_backend [reply_prose]) 0
       dystopian_shelf shelf_abc (Given (Some 5)) = (Inl GenerationError, 2)"
proof -
  let ?p = "app2_create_basic_profile dystopian_shelf"
  let ?one = "scripted_backend [reply_prose]"
  let ?two = "scripted_backend [reply_prose, reply_prose]"
  have ne: "shelf_abc \<noteq> []"
    by (simp add: shelf_abc_def)
  obtain view where view: "app2_profile_view ?p = Inr view"
    using app2_profile_view_basic by blast
  have "dystopian_shelf \<noteq> []"
    by (simp add: dystopian_shelf_def)
  then obtain q where q: "remd_create_basic_profile dystopian_shelf = Inr q"
    using remd_create_basic_profile_Inr by blast
  have bad2: "app2_extract_json json_loads CHR ''['' CHR '']'' reply_prose = None"
    by code_simp
  have badr: "remd_extract_json json_loads CHR ''['' CHR '']'' reply_prose = None"
    by code_simp
  have s1: "app2_score_unread_books json_loads cpython_sorted ?one 0 ?p shelf_abc = (Inr [], 1)"
    using score_unread_books_failures [OF ne, where p = ?p and view = view and llm = ?one
        and calls = 0 and content = reply_prose and loads = json_loads and py_sorted = cpython_sorted] view bad2
    by (simp add: scripted_backend_def)
  have s2: "remd_score_unread_books json_loads cpython_sorted ?one 0 ?p shelf_abc = (Inr [], 1)"
    using score_unread_books_failures [OF ne, where p = ?p and llm = ?one
        and calls = 0 and content = reply_prose and loads = json_loads and py_sorted = cpython_sorted] badr
    by (simp add: scripted_backend_def)
  have s3: "app2_score_unread_books json_loads cpython_sorted failing_backend 0 ?p shelf_abc
              = (Inl GenerationError, 1)"
    using score_unread_books_failures [OF ne, where p = ?p and view = view
        and llm = failing_backend and calls = 0 and e = GenerationError and loads = json_loads and py_sorted = cpython_sorted]
      view
    by (simp add: failing_backend_def)
  have s4: "remd_score_unread_books json_loads cpython_sorted failing_backend 0 ?p shelf_abc
              = (Inl GenerationError, 1)"
    using score_unread_books_failures [OF ne, where p = ?p
        and llm = failing_backend and calls = 0 and e = GenerationError and loads = json_loads and py_sorted = cpython_sorted]
    by (simp add: failing_backend_def)
  have a2: "app2_analyze_reading_taste json_loads ?two 0 dystopian_shelf = (Inr ?p, 1)"
    by code_simp
  have a1: "app2_analyze_reading_taste json_loads ?one 0 dystopian_shelf = (Inr ?p, 1)"
    by code_simp
  have "remd_analyze_reading_taste json_loads ?two 0 dystopian_shelf
          = (remd_create_basic_profile dystopian_shelf, 1)"
    by code_simp
  with q have r2: "remd_analyze_reading_taste json_loads ?two 0 dystopian_shelf = (Inr q, 1)"
    by simp
  have "remd_analyze_reading_taste json_loads ?one 0 dystopian_shelf
          = (remd_create_basic_profile dystopian_shelf, 1)"
    by code_simp
  with q have r1: "remd_analyze_reading_taste json_loads ?one 0 dystopian_shelf = (Inr q, 1)"
    by simp
  have b2: "app2_score_unread_books json_loads cpython_sorted ?two 1 ?p shelf_abc = (Inr [], 2)"
    using score_unread_books_failures [OF ne, where p = ?p and view = view and llm = ?two
        and calls = 1 and content = reply_prose and loads = json_loads and py_sorted = cpython_sorted] view bad2
    by (simp add: scripted_backend_def)
  have c2: "remd_score_unread_books json_loads cpython_sorted ?two 1 q shelf_abc = (Inr [], 2)"
    using score_unread_books_failures [OF ne, where p = q and llm = ?two
        and calls = 1 and content = reply_prose and loads = json_loads and py_sorted = cpython_sorted] badr
    by (simp add: scripted_backend_def)
  have b1: "app2_score_unread_books json_loads cpython_sorted ?one 1 ?p shelf_abc = (Inl GenerationError, 2)"
    using score_unread_books_failures [OF ne, where p = ?p and view = view and llm = ?one
        and calls = 1 and e = GenerationError and loads = json_loads and py_sorted = cpython_sorted] view
    by (simp add: scripted_backend_def)
  have c1: "remd_score_unread_books json_loads cpython_sorted ?one 1 q shelf_abc = (Inl GenerationError, 2)"
    using score_unread_books_failures [OF ne, where p = q and llm = ?one
        and calls = 1 and e = GenerationError and loads = json_loads and py_sorted = cpython_sorted]
    by (simp add: scripted_backend_def)
  have s5: "app2_get_recommendations json_loads cpython_sorted ?two 0 dystopian_shelf shelf_abc (Given (Some 5))
              = (Inr (?p, []), 2)"
    using score_unread_books_failures [OF ne, where p = ?p and llm = ?two and calls_in = 0
        and calls = 1 and calls_out = 2 and loads = json_loads and py_sorted = cpython_sorted and read_books = dystopian_shelf
        and top_n = "Given (Some 5)"] a2 b2
    by simp
  have s6: "remd_get_recommendations json_loads cpython_sorted ?two 0 dystopian_shelf shelf_abc (Given (Some 5))
              = (Inr (q, []), 2)"
    using score_unread_books_failures [OF ne, where p = q and llm = ?two and calls_in = 0
        and calls = 1 and calls_out = 2 and loads = json_loads and py_sorted = cpython_sorted and read_books = dystopian_shelf
        and top_n = "Given (Some 5)"] r2 c2
    by simp
  have s7: "app2_get_recommendations json_loads cpython_sorted ?one 0 dystopian_shelf shelf_abc (Given (Some 5))
              = (Inl GenerationError, 2)"
    using score_unread_books_failures [OF ne, where p = ?p and llm = ?one and calls_in = 0
        and calls = 1 and calls_out = 2 and loads = json_loads and py_sorted = cpython_sorted and read_books = dystopian_shelf
        and top_n = "Given (Some 5)" and e = GenerationError] a1 b1
    by simp
  have s8: "remd_get_recommendations json_loads cpython_sorted ?one 0 dystopian_shelf shelf_abc (Given (Some 5))
              = (Inl GenerationError, 2)"
    using score_unread_books_failures [OF ne, where p = q and llm = ?one and calls_in = 0
        and calls = 1 and calls_out = 2 and loads = json_loads and py_sorted = cpython_sorted and read_books = dystopian_shelf
        and top_n = "Given (Some 5)" and e = GenerationError] r1 c1
    by simp
  from s1 s2 s3 s4 s5 s6 s7 s8 q show ?thesis
    by simp
qed

section \<open>Correctness of the extraction\<close>

text \<open>Facts about \<^verbatim>\<open>find\<close>, \<^verbatim>\<open>rfind\<close> and slices.\<close>

lemma takeWhile_until:
  "c \<notin> set ys \<Longrightarrow> takeWhile (\<lambda>x. x \<noteq> c) (ys @ c # zs) = ys"
  by (induction ys) auto

lemma py_find_first: "c \<notin> set ys \<Longrightarrow> py_find c (ys @ c # zs) = int (length ys)"
  by (simp add: py_find_def takeWhile_until)

lemma py_rfind_last: "c \<notin> set zs \<Longrightarrow> py_rfind c (ys @ c # zs) = int (length ys)"
  using takeWhile_until [of c "rev zs" "rev ys"] by (simp add: py_rfind_def)

lemma py_find_absent: "c \<notin> set s \<Longrightarrow> py_find c s = - 1"
  by (simp add: py_find_def)

lemma py_rfind_absent: "c \<notin> set s \<Longrightarrow> py_rfind c s = - 1"
  by (simp add: py_rfind_def)

lemma py_slice_middle:
  "py_slice (pre @ mid @ post) (int (length pre)) (int (length pre) + int (length mid)) = mid"
  by (simp add: py_slice_def)

lemma extract_between:
  assumes "s = pre @ opn # mid @ cls # post" "opn \<notin> set pre" "cls \<notin> set post"
  shows "py_find opn s = int (length pre)"
    and "py_rfind cls s = int (length pre) + 1 + int (length mid)"
    and "py_slice s (py_find opn s) (py_rfind cls s + 1) = opn # mid @ [cls]"
proof -
  show f: "py_find opn s = int (length pre)"
    using assms by (simp add: py_find_first)
  have "s = (pre @ opn # mid) @ cls # post"
    using assms by simp
  then have "py_rfind cls s = int (length (pre @ opn # mid))"
    using assms(3) py_rfind_last by blast
  then show r: "py_rfind cls s = int (length pre) + 1 + int (length mid)"
    by simp
  have "s = pre @ (opn # mid @ [cls]) @ post"
    using assms by simp
  then have "py_slice s (int (length pre)) (int (length pre) + int (length (opn # mid @ [cls])))
               = opn # mid @ [cls]"
    using py_slice_middle by blast
  then show "py_slice s (py_find opn s) (py_rfind cls s + 1) = opn # mid @ [cls]"
    by (simp add: f r add.commute add.left_commute)
qed

lemma py_rfind_lower: "- 1 \<le> py_rfind c s"
proof (cases "c \<in> set s")
  case True
  then obtain p r where "s = p @ c # r" "c \<notin> set r"
    by (meson split_list_last)
  then show ?thesis
    by (simp add: py_rfind_last)
next
  case False
  then show ?thesis
    by (simp add: py_rfind_absent)
qed

lemma py_find_le:
  assumes "i < length s" "s ! i = c"
  shows "0 \<le> py_find c s \<and> py_find c s \<le> int i"
proof -
  have "c \<in> set s"
    using assms nth_mem by blast
  then obtain p r where p: "s = p @ c # r" "c \<notin> set p"
    by (meson split_list_first)
  have "length p \<le> i"
  proof (rule ccontr)
    assume "\<not> length p \<le> i"
    then have "i < length p" by simp
    then have "s ! i = p ! i" "p ! i \<in> set p"
      using p(1) by (simp_all add: nth_append)
    with assms(2) p(2) show False by simp
  qed
  then show ?thesis
    using p by (simp add: py_find_first)
qed

lemma py_rfind_ge:
  assumes "i < length s" "s ! i = c"
  shows "int i \<le> py_rfind c s"
proof -
  have "c \<in> set s"
    using assms nth_mem by blast
  then obtain p r where p: "s = p @ c # r" "c \<notin> set r"
    by (meson split_list_last)
  have "i \<le> length p"
  proof (rule ccontr)
    assume "\<not> i \<le> length p"
    then have gt: "length p < i" by simp
    then have "s ! i = r ! (i - length p - 1)"
      using p(1) by (simp add: nth_append nth_Cons')
    moreover have "i - length p - 1 < length r"
      using gt assms(1) p(1) by simp
    ultimately have "s ! i \<in> set r"
      by simp
    with assms(2) p(2) show False by simp
  qed
  then show ?thesis
    using p by (simp add: py_rfind_last)
qed

lemma bracket_pair_iff:
  assumes "opn \<noteq> cls"
  shows "(py_find opn s \<noteq> - 1 \<and> py_rfind cls s + 1 > py_find opn s)
           \<longleftrightarrow> (\<exists>pre mid post. s = pre @ opn # mid @ cls # post)"
proof
  assume L: "py_find opn s \<noteq> - 1 \<and> py_rfind cls s + 1 > py_find opn s"
  then have "opn \<in> set s"
    using py_find_absent by blast
  then obtain p r where p: "s = p @ opn # r" "opn \<notin> set p"
    by (meson split_list_first)
  then have f: "py_find opn s = int (length p)"
    by (simp add: py_find_first)
  with L have "py_rfind cls s \<noteq> - 1"
    by auto
  then have "cls \<in> set s"
    using py_rfind_absent by blast
  then obtain p' r' where p': "s = p' @ cls # r'" "cls \<notin> set r'"
    by (meson split_list_last)
  then have g: "py_rfind cls s = int (length p')"
    by (simp add: py_rfind_last)
  from L f g have le: "length p \<le> length p'"
    by simp
  have "(p @ opn # r) ! length p = opn" "(p' @ cls # r') ! length p' = cls"
    by simp_all
  then have "s ! length p = opn" "s ! length p' = cls"
    using p(1) p'(1) by metis+
  with assms have "length p \<noteq> length p'"
    by auto
  with le have lt: "length p < length p'"
    by simp
  define m where "m = take (length p' - length p - 1) r"
  have "p' = take (length p') s"
    using p'(1) by simp
  also have "\<dots> = p @ take (length p' - length p) (opn # r)"
    using p(1) lt by simp
  also have "take (length p' - length p) (opn # r) = opn # m"
    using lt by (simp add: take_Cons' m_def)
  finally have "s = p @ opn # m @ cls # r'"
    using p'(1) by simp
  then show "\<exists>pre mid post. s = pre @ opn # mid @ cls # post"
    by blast
next
  assume "\<exists>pre mid post. s = pre @ opn # mid @ cls # post"
  then obtain pre mid post where s: "s = pre @ opn # mid @ cls # post"
    by blast
  have i: "length pre < length s" "s ! length pre = opn"
    using s by simp_all
  have "s = (pre @ opn # mid) @ cls # post"
    using s by simp
  then have "s ! length (pre @ opn # mid) = cls"
    using nth_append_length by metis
  then have j: "length pre + 1 + length mid < length s" "s ! (length pre + 1 + length mid) = cls"
    using s by simp_all
  from py_find_le [OF i] py_rfind_ge [OF j]
  show "py_find opn s \<noteq> - 1 \<and> py_rfind cls s + 1 > py_find opn s"
    by simp
qed

lemma remd_slice_without_pair:
  assumes "\<not> (py_find opn s \<noteq> - 1 \<and> py_rfind cls s + 1 > py_find opn s)"
  shows "py_slice s (py_find opn s) (py_rfind cls s + 1)
           = (if opn \<notin> set s \<and> s \<noteq> [] \<and> last s = cls then [cls] else [])"
proof (cases "opn \<in> set s")
  case True
  then obtain p r where p: "s = p @ opn # r" "opn \<notin> set p"
    by (meson split_list_first)
  then have f: "py_find opn s = int (length p)"
    by (simp add: py_find_first)
  with assms have "py_rfind cls s + 1 \<le> int (length p)"
    by simp
  moreover have "- 1 \<le> py_rfind cls s"
    by (rule py_rfind_lower)
  ultimately have "py_slice s (int (length p)) (py_rfind cls s + 1) = []"
    using p(1) by (simp add: py_slice_def)
  with True f show ?thesis by simp
next
  case False
  then have f: "py_find opn s = - 1"
    by (simp add: py_find_absent)
  show ?thesis
  proof (cases "cls \<in> set s")
    case no: False
    then have "py_rfind cls s = - 1"
      by (simp add: py_rfind_absent)
    moreover have "s \<noteq> [] \<Longrightarrow> last s \<noteq> cls"
      using no last_in_set by metis
    ultimately show ?thesis
      using f False by (auto simp add: py_slice_def)
  next
    case True
    then obtain p r where p: "s = p @ cls # r" "cls \<notin> set r"
      by (meson split_list_last)
    then have g: "py_rfind cls s = int (length p)"
      by (simp add: py_rfind_last)
    show ?thesis
    proof (cases r)
      case Nil
      then show ?thesis
        using f g p False by (simp add: py_slice_def)
    next
      case (Cons a r')
      then have "last s = last r" "last r \<in> set r"
        using p(1) by simp_all
      then have "last s \<noteq> cls"
        using p(2) by metis
      then show ?thesis
        using f g p Cons by (simp add: py_slice_def)
    qed
  qed
qed

text \<open>
  C1, as the spec states it: when the reply holds no bracket pair, the whole reply is
  decoded. \<^verbatim>\<open>remd.py\<close> does not do that: the reply \<^verbatim>\<open>123\<close> holds no brace and is a
  JSON document, yet the slice that is decoded there is empty and the result is a
  failure.
\<close>

theorem extract_json_whole_text_counterexample:
  "CHR ''{'' \<notin> set reply_number
   \<and> CHR ''}'' \<notin> set reply_number
   \<and> json_loads reply_number = Some (JNum 123)
   \<and> remd_extract_json json_loads CHR ''{'' CHR ''}'' reply_number = None
   \<and> remd_extract_json json_loads CHR ''{'' CHR ''}'' reply_number \<noteq> json_loads reply_number"
  by code_simp

text \<open>
  C1, amended. For every reply \<open>s\<close> and every decoder: when \<open>s\<close> holds an opening
  bracket with a closing bracket after it, both files decode the text from the first
  opening bracket through the last closing bracket. When it holds no such pair,
  \<^verbatim>\<open>app2.py\<close> decodes the whole reply, while \<^verbatim>\<open>remd.py\<close> decodes the slice, which
  is then empty, or the closing bracket alone when the reply ends with it and has no
  opening bracket. In both, a text the decoder rejects gives the failure value (\<open>None\<close>),
  not an exception. On the reply \<^verbatim>\<open>Here is the result:\n{"a":1}\nThanks!\<close> both
  give the object \<^verbatim>\<open>{"a":1}\<close>, and on \<^verbatim>\<open>not json at all\<close> both give the failure.
\<close>

theorem extract_json_cases:
  "(s = pre @ opn # mid @ cls # post \<and> opn \<notin> set pre \<and> cls \<notin> set post \<longrightarrow>
      app2_extract_json loads opn cls s = loads (opn # mid @ [cls])
      \<and> remd_extract_json loads opn cls s = loads (opn # mid @ [cls]))
   \<and> (opn \<noteq> cls \<and> (\<nexists>pre mid post. s = pre @ opn # mid @ cls # post) \<longrightarrow>
      app2_extract_json loads opn cls s = loads s
      \<and> remd_extract_json loads opn cls s
          = loads (if opn \<notin> set s \<and> s \<noteq> [] \<and> last s = cls then [cls] else []))
   \<and> app2_extract_json json_loads CHR ''{'' CHR ''}'' reply_object
       = Some (JObj [(''a'', JNum 1)])
   \<and> remd_extract_json json_loads CHR ''{'' CHR ''}'' reply_object
       = Some (JObj [(''a'', JNum 1)])
   \<and> app2_extract_json json_loads CHR ''{'' CHR ''}'' reply_prose = None
   \<and> remd_extract_json json_loads CHR ''{'' CHR ''}'' reply_prose = None"
proof -
  have found: "app2_extract_json loads opn cls s = loads (opn # mid @ [cls])
               \<and> remd_extract_json loads opn cls s = loads (opn # mid @ [cls])"
    if "s = pre @ opn # mid @ cls # post" "opn \<notin> set pre" "cls \<notin> set post"
    using extract_between [OF that]
    by (simp add: app2_extract_json_def remd_extract_json_def)
  have missing: "app2_extract_json loads opn cls s = loads s
                 \<and> remd_extract_json loads opn cls s
                     = loads (if opn \<notin> set s \<and> s \<noteq> [] \<and> last s = cls then [cls] else [])"
    if "opn \<noteq> cls" "\<nexists>pre mid post. s = pre @ opn # mid @ cls # post"
  proof -
    from that bracket_pair_iff [of opn cls s]
    have no: "\<not> (py_find opn s \<noteq> - 1 \<and> py_rfind cls s + 1 > py_find opn s)"
      by simp
    then have "app2_extract_json loads opn cls s = loads s"
      by (auto simp add: app2_extract_json_def Let_def)
    moreover have "remd_extract_json loads opn cls s
        = loads (if opn \<notin> set s \<and> s \<noteq> [] \<and> last s = cls then [cls] else [])"
      using remd_slice_without_pair [OF no] by (simp add: remd_extract_json_def)
    ultimately show ?thesis by simp
  qed
  have e1: "app2_extract_json json_loads CHR ''{'' CHR ''}'' reply_object
              = Some (JObj [(''a'', JNum 1)])"
    by code_simp
  have e2: "remd_extract_json json_loads CHR ''{'' CHR ''}'' reply_object
              = Some (JObj [(''a'', JNum 1)])"
    by code_simp
  have e3: "app2_extract_json json_loads CHR ''{'' CHR ''}'' reply_prose = None"
    by code_simp
  have e4: "remd_extract_json json_loads CHR ''{'' CHR ''}'' reply_prose = None"
    by code_simp
  from found missing e1 e2 e3 e4 show ?thesis
    by blast
qed

theorem extract_json_cases_witness:
  "app2_extract_json json_loads CHR ''{'' CHR ''}'' reply_object
     = json_loads (CHR ''{'' # take 5 (drop 21 reply_object) @ [CHR ''}''])
   \<and> remd_extract_json json_loads CHR ''{'' CHR ''}'' reply_object
     = json_loads (CHR ''{'' # take 5 (drop 21 reply_object) @ [CHR ''}''])
   \<and> json_loads (CHR ''{'' # take 5 (drop 21 reply_object) @ [CHR ''}''])
     = Some (JObj [(''a'', JNum 1)])
   \<and> app2_extract_json json_loads CHR ''{'' CHR ''}'' reply_prose = json_loads reply_prose
   \<and> remd_extract_json json_loads CHR ''{'' CHR ''}'' reply_prose = json_loads []
   \<and> json_loads reply_prose = None
   \<and> json_loads [] = None"
proof -
  let ?pre = "take 20 reply_object"
  let ?mid = "take 5 (drop 21 reply_object)"
  let ?post = "drop 27 reply_object"
  have split: "reply_object = ?pre @ CHR ''{'' # ?mid @ CHR ''}'' # ?post"
    by (simp add: reply_object_def)
  have pre: "CHR ''{'' \<notin> set ?pre"
    by (simp add: reply_object_def)
  have post: "CHR ''}'' \<notin> set ?post"
    by (simp add: reply_object_def)
  have a: "app2_extract_json json_loads CHR ''{'' CHR ''}'' reply_object
             = json_loads (CHR ''{'' # ?mid @ [CHR ''}''])
           \<and> remd_extract_json json_loads CHR ''{'' CHR ''}'' reply_object
             = json_loads (CHR ''{'' # ?mid @ [CHR ''}''])"
    using extract_json_cases [where s = reply_object and pre = ?pre and mid = ?mid
        and post = ?post and opn = "CHR ''{''" and cls = "CHR ''}''" and loads = json_loads]
      split pre post
    by blast
  have v: "json_loads (CHR ''{'' # ?mid @ [CHR ''}'']) = Some (JObj [(''a'', JNum 1)])"
    by code_simp
  have "CHR ''{'' \<notin> set reply_prose"
    by (simp add: reply_prose_def)
  then have none: "\<nexists>pre mid post. reply_prose = pre @ CHR ''{'' # mid @ CHR ''}'' # post"
    by (metis in_set_conv_decomp)
  have last: "last reply_prose \<noteq> CHR ''}''"
    by (simp add: reply_prose_def)
  have b: "app2_extract_json json_loads CHR ''{'' CHR ''}'' reply_prose = json_loads reply_prose
           \<and> remd_extract_json json_loads CHR ''{'' CHR ''}'' reply_prose = json_loads []"
    using extract_json_cases [where s = reply_prose and opn = "CHR ''{''" and cls = "CHR ''}''"
        and loads = json_loads] none last
    by simp
  have w: "json_loads reply_prose = None" "json_loads [] = None"
    by code_simp+
  from a v b w show ?thesis
    by simp
qed

section \<open>Correctness of the fallback profile\<close>

subsection \<open>Sorting\<close>

lemma py_sorted_desc_mset [simp]: "mset (py_sorted_desc key xs) = mset xs"
  by (simp add: py_sorted_desc_def)

lemma py_sorted_desc_set [simp]: "set (py_sorted_desc key xs) = set xs"
  by (simp add: py_sorted_desc_def)

lemma py_sorted_desc_length [simp]: "length (py_sorted_desc key xs) = length xs"
  by (simp add: py_sorted_desc_def)

lemma py_sorted_desc_sorted:
  "sorted_wrt (\<lambda>a b. key b \<le> key a) (py_sorted_desc key xs)"
proof -
  have "sorted (map key (sort_key key (rev xs)))"
    by simp
  then have "sorted_wrt (\<lambda>a b. key a \<le> key b) (sort_key key (rev xs))"
    by (simp add: sorted_wrt_map)
  then show ?thesis
    by (simp add: py_sorted_desc_def sorted_wrt_rev)
qed


lemma py_sorted_desc_distinct_map:
  "distinct (map f (py_sorted_desc key xs)) = distinct (map f xs)"
proof -
  have "mset (map f (py_sorted_desc key xs)) = mset (map f xs)"
    by simp
  then show ?thesis
    by (rule mset_eq_imp_distinct_iff)
qed

lemma sorted_wrt_take_drop:
  assumes "sorted_wrt P xs" "a \<in> set (take n xs)" "b \<in> set (drop n xs)"
  shows "P a b"
proof -
  have "sorted_wrt P (take n xs @ drop n xs)"
    using assms(1) by simp
  then show ?thesis
    using assms(2,3) unfolding sorted_wrt_append by blast
qed

subsection \<open>Counters\<close>

lemma counter_incr_keys:
  "map fst (counter_incr k c) = (if k \<in> fst ` set c then map fst c else map fst c @ [k])"
  by (induction c) force+

lemma counter_incr_distinct:
  "distinct (map fst c) \<Longrightarrow> distinct (map fst (counter_incr k c))"
  by (simp add: counter_incr_keys)

lemma counter_incr_map_of:
  "map_of (counter_incr k c) k' =
     (if k' = k then Some (case map_of c k of None \<Rightarrow> 1 | Some n \<Rightarrow> n + 1) else map_of c k')"
  by (induction c) auto

lemma counter_incr_sum:
  "sum_list (map snd (counter_incr k c)) = Suc (sum_list (map snd c))"
  by (induction c) auto

lemma counts_incr: "counts c xs \<Longrightarrow> counts (counter_incr k c) (xs @ [k])"
  by (auto simp add: counts_def counter_incr_distinct counter_incr_map_of counter_incr_sum)

lemma counts_update: "counts c xs \<Longrightarrow> counts (counter_update c ks) (xs @ ks)"
  unfolding counter_update_def
proof (induction ks arbitrary: c xs)
  case Nil
  then show ?case by simp
next
  case (Cons k ks)
  from Cons.IH [OF counts_incr [OF Cons.prems, of k]] show ?case
    by simp
qed

lemma counts_Nil: "counts [] []"
  by (simp add: counts_def)

lemma counts_member:
  assumes "counts c xs" "(k, n) \<in> set c"
  shows "k \<in> set xs \<and> n = count_list xs k"
proof -
  have "distinct (map fst c)"
    using assms(1) by (simp add: counts_def)
  then have "map_of c k = Some n"
    using assms(2) by simp
  moreover have "map_of c k = (if k \<in> set xs then Some (count_list xs k) else None)"
    using assms(1) by (simp add: counts_def)
  ultimately show ?thesis
    by (cases "k \<in> set xs") simp_all
qed

lemma counts_has:
  assumes "counts c xs" "k \<in> set xs"
  shows "(k, count_list xs k) \<in> set c"
proof -
  have "map_of c k = Some (count_list xs k)"
    using assms by (simp add: counts_def)
  then show ?thesis
    by (rule map_of_SomeD)
qed

lemma counts_keys:
  assumes "counts c xs"
  shows "fst ` set c = set xs"
  using counts_member [OF assms] counts_has [OF assms] by force

lemma counts_length:
  assumes "counts c xs"
  shows "length c = card (set xs)"
proof -
  have "distinct (map fst c)"
    using assms by (simp add: counts_def)
  then have "card (set (map fst c)) = length (map fst c)"
    by (rule distinct_card)
  then show ?thesis
    using counts_keys [OF assms] by simp
qed

lemma counts_total:
  "counts c xs \<Longrightarrow> total_genres c = (if xs = [] then 1 else length xs)"
  by (simp add: counts_def total_genres_def)

lemma count_books_fold:
  "fold count_book bs (gc, ac, tc) =
     (counter_update gc (concat (map genres bs)),
      counter_update ac (map author bs),
      counter_update tc (concat (map themes bs)))"
  by (induction bs arbitrary: gc ac tc) (simp_all add: count_book_def counter_update_def)

lemma count_books_counts:
  assumes "count_books bs = (gc, ac, tc)"
  shows "counts gc (concat (map genres bs))"
    and "counts ac (map author bs)"
    and "counts tc (concat (map themes bs))"
  using assms counts_update [OF counts_Nil]
  by (auto simp add: count_books_def count_books_fold)

subsection \<open>The most common entries\<close>

lemma most_common_subset: "set (most_common n c) \<subseteq> set c"
  using set_take_subset [of n "py_sorted_desc snd c"] by (simp add: most_common_def)

lemma most_common_top:
  assumes "counts c xs"
  shows "top_by_count n xs (map fst (most_common n c))"
proof -
  let ?s = "py_sorted_desc snd c"
  let ?t = "most_common n c"
  have val: "snd x = count_list xs (fst x)" "fst x \<in> set xs" if "x \<in> set c" for x
    using counts_member [OF assms, of "fst x" "snd x"] that by simp_all
  have sub: "set ?t \<subseteq> set c"
    by (rule most_common_subset)
  have "distinct (map fst ?s)"
    using assms by (simp add: py_sorted_desc_distinct_map counts_def)
  then have d: "distinct (map fst ?t)"
    by (simp add: most_common_def distinct_take take_map [symmetric])
  have inj: "x = y" if "x \<in> set c" "y \<in> set c" "fst x = fst y" for x y
    using val that by (metis prod.expand)
  have s: "set (map fst ?t) \<subseteq> set xs"
    using sub val(2) by auto
  have l: "length (map fst ?t) = min n (card (set xs))"
    using counts_length [OF assms] by (simp add: most_common_def min.commute)
  have sorted: "sorted_wrt (\<lambda>a b. snd b \<le> snd a) ?s"
    by (rule py_sorted_desc_sorted)
  then have st: "sorted_wrt (\<lambda>a b. snd b \<le> snd a) ?t"
    by (simp add: most_common_def sorted_wrt_take)
  have val': "snd x = count_list xs (fst x)" if "x \<in> set ?t" for x
    using val(1) sub that by blast
  have "sorted_wrt (\<lambda>a b. count_list xs (fst b) \<le> count_list xs (fst a)) ?t"
  proof (rule sorted_wrt_mono_rel)
    show "sorted_wrt (\<lambda>a b. snd b \<le> snd a) ?t"
      by (rule st)
  next
    fix x y
    assume "x \<in> set ?t" "y \<in> set ?t" "snd y \<le> snd x"
    then show "count_list xs (fst y) \<le> count_list xs (fst x)"
      by (simp add: val')
  qed
  then have o: "sorted_wrt (\<lambda>a b. count_list xs b \<le> count_list xs a) (map fst ?t)"
    by (simp add: sorted_wrt_map)
  have r: "count_list xs b \<le> count_list xs a"
    if "a \<in> set (map fst ?t)" "b \<in> set xs - set (map fst ?t)" for a b
  proof -
    from that(1) obtain x where x: "x \<in> set ?t" "fst x = a"
      by auto
    have "(b, count_list xs b) \<in> set c"
      using counts_has [OF assms] that(2) by simp
    moreover have "(b, count_list xs b) \<notin> set ?t"
      using that(2) by force
    ultimately have "(b, count_list xs b) \<in> set (drop n ?s)"
      using set_append [of "take n ?s" "drop n ?s"]
      by (simp add: most_common_def del: set_append)
    moreover have "x \<in> set (take n ?s)"
      using x(1) by (simp add: most_common_def)
    ultimately have "snd (b, count_list xs b) \<le> snd x"
      using sorted_wrt_take_drop [OF sorted] by blast
    then show ?thesis
      using val(1) [of x] sub x by auto
  qed
  from d s l o r show ?thesis
    unfolding top_by_count_def by blast
qed

lemma most_common_values:
  assumes "counts c xs" "(k, m) \<in> set (most_common n c)"
  shows "k \<in> set xs \<and> m = count_list xs k"
  using counts_member [OF assms(1)] most_common_subset assms(2) by blast

lemma top_counts_spec:
  assumes "counts c xs"
  shows "top_dict 5 xs (\<lambda>k. of_nat (count_list xs k)) (top_counts c)"
  using most_common_top [OF assms, of 5] most_common_values [OF assms, of _ _ 5]
  by (auto simp add: top_dict_def top_counts_def comp_def case_prod_unfold)

lemma genre_weights_spec:
  assumes "counts c xs"
  shows "top_dict 5 xs (\<lambda>g. of_nat (count_list xs g) / of_nat (length xs))
           (JObj (map (\<lambda>(g, w). (g, JNum w)) (genre_weights c)))"
proof -
  have "w = of_nat (count_list xs g) / of_nat (length xs)"
    if "(g, w) \<in> set (genre_weights c)" for g w
  proof -
    from that obtain m where m: "(g, m) \<in> set (most_common 5 c)"
      "w = of_nat m / of_nat (total_genres c)"
      by (auto simp add: genre_weights_def)
    then have "g \<in> set xs" "m = count_list xs g"
      using most_common_values [OF assms] by blast+
    then show ?thesis
      using m(2) counts_total [OF assms] by auto
  qed
  moreover have "map fst (genre_weights c) = map fst (most_common 5 c)"
    by (simp add: genre_weights_def comp_def case_prod_unfold)
  ultimately show ?thesis
    using most_common_top [OF assms, of 5]
    by (auto simp add: top_dict_def comp_def case_prod_unfold)
qed

text \<open>
  C4. For non-empty read books, the fallback profile of both files has as favourite
  genres the top 5 genres by number of occurrences over all books, each with its count
  divided by the total number of genre occurrences; as favourite authors and common
  themes the top 5 authors and themes with their counts; as diversity score the number
  of distinct genres divided by the number of books; and the reading level "mixed".
  For the three books with genres Dystopian and Political Fiction, Dystopian, Dystopian,
  the weights are 3/4 and 1/4 and the diversity score is 2/3.
\<close>

theorem create_basic_profile_spec:
  assumes "read_books \<noteq> []"
  shows "basic_profile_spec read_books (app2_create_basic_profile read_books)
       \<and> (\<exists>p. remd_create_basic_profile read_books = Inr p \<and> basic_profile_spec read_books p)
       \<and> favorite_genres (app2_create_basic_profile dystopian_shelf)
           = JObj [(''Dystopian'', JNum (3 / 4)), (''Political Fiction'', JNum (1 / 4))]
       \<and> diversity_score (app2_create_basic_profile dystopian_shelf) = JNum (2 / 3)
       \<and> map_sum id favorite_genres (remd_create_basic_profile dystopian_shelf)
           = Inr (JObj [(''Dystopian'', JNum (3 / 4)), (''Political Fiction'', JNum (1 / 4))])
       \<and> map_sum id diversity_score (remd_create_basic_profile dystopian_shelf)
           = Inr (JNum (2 / 3))"
proof -
  obtain gc ac tc where c: "count_books read_books = (gc, ac, tc)"
    by (cases "count_books read_books")
  note cs = count_books_counts [OF c]
  have d: "rat_of_nat (length gc) = of_nat (card (set (concat (map genres read_books))))"
    using counts_length [OF cs(1)] by simp
  have a: "basic_profile_spec read_books (app2_create_basic_profile read_books)"
    using assms genre_weights_spec [OF cs(1)] top_counts_spec [OF cs(2)]
      top_counts_spec [OF cs(3)] d
    by (simp add: basic_profile_spec_def app2_create_basic_profile_def c)
  have r: "\<exists>p. remd_create_basic_profile read_books = Inr p \<and> basic_profile_spec read_books p"
    using assms genre_weights_spec [OF cs(1)] top_counts_spec [OF cs(2)]
      top_counts_spec [OF cs(3)] d
    by (simp add: basic_profile_spec_def remd_create_basic_profile_def c)
  have e1: "favorite_genres (app2_create_basic_profile dystopian_shelf)
              = JObj [(''Dystopian'', JNum (3 / 4)), (''Political Fiction'', JNum (1 / 4))]"
    by code_simp
  have e2: "diversity_score (app2_create_basic_profile dystopian_shelf) = JNum (2 / 3)"
    by code_simp
  have e3: "map_sum id favorite_genres (remd_create_basic_profile dystopian_shelf)
              = Inr (JObj [(''Dystopian'', JNum (3 / 4)), (''Political Fiction'', JNum (1 / 4))])"
    by code_simp
  have e4: "map_sum id diversity_score (remd_create_basic_profile dystopian_shelf)
              = Inr (JNum (2 / 3))"
    by code_simp
  from a r e1 e2 e3 e4 show ?thesis
    by blast
qed

theorem create_basic_profile_spec_witness:
  "dystopian_shelf \<noteq> []
   \<and> basic_profile_spec dystopian_shelf (app2_create_basic_profile dystopian_shelf)
   \<and> (\<exists>p. remd_create_basic_profile dystopian_shelf = Inr p
        \<and> basic_profile_spec dystopian_shelf p)
   \<and> concat (map genres dystopian_shelf)
       = [''Dystopian'', ''Political Fiction'', ''Dystopian'', ''Dystopian'']
   \<and> favorite_genres (app2_create_basic_profile dystopian_shelf)
       = JObj [(''Dystopian'', JNum (3 / 4)), (''Political Fiction'', JNum (1 / 4))]
   \<and> diversity_score (app2_create_basic_profile dystopian_shelf) = JNum (2 / 3)"
proof -
  have ne: "dystopian_shelf \<noteq> []"
    by (simp add: dystopian_shelf_def)
  have g: "concat (map genres dystopian_shelf)
             = [''Dystopian'', ''Political Fiction'', ''Dystopian'', ''Dystopian'']"
    by (simp add: dystopian_shelf_def orwell_1984_def brave_new_world_def handmaids_tale_def)
  from create_basic_profile_spec [OF ne] ne g show ?thesis
    by blast
qed

section \<open>The model of the sort keeps Python's promises\<close>

lemma insert_rest_mset:
  "insert_rest done xs = Inr out \<Longrightarrow> mset out = mset done + mset xs"
proof (induction xs arbitrary: "done")
  case Nil
  then show ?case by simp
next
  case (Cons x xs)
  from Cons.prems obtain l where
    "insert_rest (take l done @ x # drop l done) xs = Inr out"
    by (auto split: sum.splits)
  then have "mset out = mset (take l done @ x # drop l done) + mset xs"
    by (rule Cons.IH)
  moreover have "mset (take l done @ x # drop l done) = mset done + {#x#}"
    using append_take_drop_id [of l "done"] by (metis add_mset_add_single mset.simps(2) mset_append union_mset_add_mset_right)
  ultimately show ?case
    by simp
qed

lemma sort_ascending_mset:
  assumes "sort_ascending keyed = Inr out"
  shows "mset out = mset keyed"
proof -
  from assms obtain n down where
    "insert_rest (if down then rev (take n keyed) else take n keyed) (drop n keyed) = Inr out"
    by (auto simp add: sort_ascending_def split: sum.splits)
  then have "mset out
      = mset (if down then rev (take n keyed) else take n keyed) + mset (drop n keyed)"
    by (rule insert_rest_mset)
  also have "\<dots> = mset (take n keyed) + mset (drop n keyed)"
    by simp
  also have "\<dots> = mset (take n keyed @ drop n keyed)"
    by (simp only: mset_append)
  finally show ?thesis
    by simp
qed

lemma cpython_sorted_mset:
  assumes "cpython_sorted key reverse xs = Inr out"
  shows "mset out = mset xs"
proof -
  let ?ys = "if reverse then rev xs else xs"
  from assms obtain zs where
    zs: "out = (if reverse then rev zs else zs)"
    and either: "zs = sort_key (\<lambda>x. ord_key (key x)) ?ys
      \<or> (\<exists>keyed. sort_ascending (map (\<lambda>x. (key x, x)) ?ys) = Inr keyed \<and> zs = map snd keyed)"
    by (auto simp add: cpython_sorted_def Let_def split: sum.splits if_splits)
  have "mset zs = mset ?ys"
  proof -
    from either consider "zs = sort_key (\<lambda>x. ord_key (key x)) ?ys"
      | keyed where "sort_ascending (map (\<lambda>x. (key x, x)) ?ys) = Inr keyed" "zs = map snd keyed"
      by blast
    then show ?thesis
    proof cases
      case 1
      then show ?thesis by simp
    next
      case 2
      then have "mset keyed = mset (map (\<lambda>x. (key x, x)) ?ys)"
        using sort_ascending_mset by blast
      then have "mset (map snd keyed) = mset (map snd (map (\<lambda>x. (key x, x)) ?ys))"
        by (metis mset_map)
      then show ?thesis
        using 2(2) by (simp add: comp_def)
    qed
  qed
  then show ?thesis
    using zs by (simp split: if_splits)
qed

lemma cpython_sorted_permutes: "sort_permutes cpython_sorted"
  unfolding sort_permutes_def using cpython_sorted_mset by blast

lemma cpython_sorted_orders_numbers: "sort_orders_numbers cpython_sorted"
proof -
  have "(\<lambda>s. ord_key (overall_score s)) = overall"
    by (simp add: overall_def fun_eq_iff)
  then show ?thesis
    unfolding sort_orders_numbers_def
    by (simp add: cpython_sorted_def Let_def py_sorted_desc_def ordered_score_def list_all_iff)
qed

section \<open>Correctness of scoring\<close>

subsection \<open>The loop over the reply\<close>

lemma book_lookup_Some:
  "book_lookup unread t = Some b \<Longrightarrow> b \<in> set unread \<and> title b = t"
  by (auto simp add: book_lookup_def dest!: map_of_SomeD)

lemma book_lookup_None:
  "book_lookup unread t = None \<longleftrightarrow> t \<notin> title ` set unread"
  by (simp add: book_lookup_def map_of_eq_None_iff image_image)

lemma lookup_get_entry:
  "is_hashable t \<Longrightarrow> lookup_get lk t = Inr (case t of JStr s \<Rightarrow> lk s | _ \<Rightarrow> None)"
  by (cases t) (simp_all add: lookup_get_def)

lemma collect_scores_entries:
  assumes "\<forall>e \<in> set elems. is_entry e"
  shows "collect_scores (book_lookup unread) elems = Inr (matched_scores unread elems)"
  using assms unfolding matched_scores_def
proof (induction elems)
  case Nil
  then show ?case by simp
next
  case (Cons e elems)
  then obtain d where d: "e = JObj d" "is_hashable (dict_get d ''title'' (JStr ''''))"
    by (cases e) (simp_all add: is_entry_def)
  show ?case
  proof (cases "dict_get d ''title'' (JStr '''')")
    case (JStr t)
    then show ?thesis
      using Cons d by (cases "book_lookup unread t")
        (simp_all add: lookup_get_entry entry_score_def)
  qed (use Cons d in \<open>simp_all add: lookup_get_entry entry_score_def is_hashable_def\<close>)
qed

lemma collect_scores_Inr:
  assumes "collect_scores (book_lookup unread) elems = Inr book_scores"
  shows "book_scores = matched_scores unread elems"
  using assms unfolding matched_scores_def
proof (induction elems arbitrary: book_scores)
  case Nil
  then show ?case by simp
next
  case (Cons e elems)
  then show ?case
    by (auto simp add: entry_score_def lookup_get_def
        split: json.splits sum.splits option.splits if_splits)
qed

lemma collect_scores_unhashable:
  assumes "\<forall>e \<in> set before. is_entry e"
    and "\<not> is_hashable (dict_get d ''title'' (JStr ''''))"
  shows "collect_scores (book_lookup unread) (before @ JObj d # rest) = Inl TypeError"
  using assms(1)
proof (induction before)
  case Nil
  then show ?case
    using assms(2) by (simp add: lookup_get_def)
next
  case (Cons e before)
  then obtain d' where d': "e = JObj d'" "is_hashable (dict_get d' ''title'' (JStr ''''))"
    by (cases e) (simp_all add: is_entry_def)
  with Cons show ?case
    by (simp add: lookup_get_entry split: json.splits option.splits)
qed

lemma collect_scores_not_dict:
  assumes "\<forall>e \<in> set before. is_entry e" and "\<nexists>d. x = JObj d"
  shows "collect_scores (book_lookup unread) (before @ x # rest) = Inl AttributeError"
  using assms(1)
proof (induction before)
  case Nil
  then show ?case
    using assms(2) by (cases x) simp_all
next
  case (Cons e before)
  then obtain d' where d': "e = JObj d'" "is_hashable (dict_get d' ''title'' (JStr ''''))"
    by (cases e) (simp_all add: is_entry_def)
  with Cons show ?case
    by (simp add: lookup_get_entry split: json.splits option.splits)
qed

lemma in_map_filter:
  "y \<in> set (List.map_filter f xs) \<longleftrightarrow> (\<exists>x \<in> set xs. f x = Some y)"
  by (induction xs) (auto split: option.splits)

lemma matched_members:
  assumes "s \<in> set (matched_scores unread elems)"
  shows "\<exists>d. JObj d \<in> set elems \<and> entry_title (JObj d) = JStr (title (book s))
           \<and> book_lookup unread (title (book s)) = Some (book s) \<and> s = make_score (book s) d"
proof -
  from assms obtain e where e: "e \<in> set elems" "entry_score unread e = Some s"
    by (auto simp add: in_map_filter matched_scores_def)
  then obtain d t b where "e = JObj d" "dict_get d ''title'' (JStr '''') = JStr t"
    "book_lookup unread t = Some b" "s = make_score b d"
    by (auto simp add: entry_score_def split: json.splits)
  moreover from this have "title b = t"
    using book_lookup_Some by blast
  ultimately show ?thesis
    using e(1) by (auto simp add: entry_title_def make_score_def)
qed

lemma matched_titles:
  assumes "\<forall>e \<in> set elems. is_entry e"
  shows "map (\<lambda>s. JStr (title (book s))) (matched_scores unread elems)
           = filter (\<lambda>t. t \<in> (\<lambda>b. JStr (title b)) ` set unread) (map entry_title elems)"
  using assms unfolding matched_scores_def
proof (induction elems)
  case Nil
  then show ?case by simp
next
  case (Cons e elems)
  then obtain d where d: "e = JObj d"
    by (cases e) (simp_all add: is_entry_def)
  show ?case
  proof (cases "dict_get d ''title'' (JStr '''')")
    case (JStr t)
    show ?thesis
    proof (cases "book_lookup unread t")
      case None
      then have "JStr t \<notin> (\<lambda>b. JStr (title b)) ` set unread"
        using book_lookup_None [of unread t] by auto
      with None JStr d Cons show ?thesis
        by (simp add: entry_score_def entry_title_def)
    next
      case (Some b)
      then have "b \<in> set unread" "title b = t"
        using book_lookup_Some by blast+
      then have "JStr t \<in> (\<lambda>b. JStr (title b)) ` set unread"
        by auto
      with Some JStr d Cons \<open>title b = t\<close> show ?thesis
        by (simp add: entry_score_def entry_title_def make_score_def)
    qed
  qed (use Cons d in \<open>auto simp add: entry_score_def entry_title_def\<close>)
qed

subsection \<open>From the reply to the result\<close>

lemma app2_score_decoded:
  assumes "unread \<noteq> []" "app2_decodes loads llm calls p unread scores_data"
  shows "app2_score_unread_books loads py_sorted llm calls p unread
           = (build_scores py_sorted unread scores_data, Suc calls)"
  using assms by (auto simp add: app2_score_unread_books_def app2_decodes_def)

lemma remd_score_decoded:
  assumes "unread \<noteq> []" "remd_decodes loads llm calls p unread scores_data"
  shows "remd_score_unread_books loads py_sorted llm calls p unread
           = (build_scores py_sorted unread scores_data, Suc calls)"
  using assms by (auto simp add: remd_score_unread_books_def remd_decodes_def)

lemma decodes_example:
  "app2_decodes json_loads (scripted_backend [reply]) 0 profile_of_reply unread scores_data
     \<longleftrightarrow> app2_extract_json json_loads CHR ''['' CHR '']'' reply = Some scores_data"
  "remd_decodes json_loads (scripted_backend [reply]) 0 profile_of_reply unread scores_data
     \<longleftrightarrow> remd_extract_json json_loads CHR ''['' CHR '']'' reply = Some scores_data"
  by (auto simp add: app2_decodes_def remd_decodes_def scripted_backend_def
      app2_profile_view_def profile_of_reply_def)

lemma build_scores_array:
  assumes "\<forall>e \<in> set elems. is_entry e"
  shows "build_scores py_sorted unread (JArr elems)
           = py_sorted overall_score True (matched_scores unread elems)"
  using collect_scores_entries [OF assms]
  by (simp add: build_scores_def py_iter_def sort_scores_def)

lemma build_scores_Inr:
  assumes "build_scores py_sorted unread scores_data = Inr out"
  shows "\<exists>elems. py_iter scores_data = Inr elems
           \<and> py_sorted overall_score True (matched_scores unread elems) = Inr out"
proof -
  from assms obtain elems book_scores where
    "py_iter scores_data = Inr elems"
    "collect_scores (book_lookup unread) elems = Inr book_scores"
    "py_sorted overall_score True book_scores = Inr out"
    by (auto simp add: build_scores_def sort_scores_def split: sum.splits)
  then show ?thesis
    using collect_scores_Inr by blast
qed

lemma score_unread_books_Inr:
  assumes "fst (app2_score_unread_books loads py_sorted llm calls p unread) = Inr out
           \<or> fst (remd_score_unread_books loads py_sorted llm calls p unread) = Inr out"
  shows "out = [] \<or> (\<exists>scores_data. build_scores py_sorted unread scores_data = Inr out)"
  using assms
  by (auto simp add: app2_score_unread_books_def remd_score_unread_books_def
      split: if_splits sum.splits option.splits)

subsection \<open>Order\<close>

lemma py_ge_ordered:
  assumes "ordered_score a" "ordered_score b"
  shows "py_ge (overall_score a) (overall_score b) \<longleftrightarrow> overall b \<le> overall a"
  using assms by (auto simp add: py_ge_def ordered_score_def overall_def ord_key_def)

lemma descending_ordered:
  assumes "list_all ordered_score out"
  shows "descending out \<longleftrightarrow> sorted_wrt (\<lambda>a b. overall b \<le> overall a) out"
proof -
  have "sorted_wrt (\<lambda>a b. py_ge (overall_score a) (overall_score b)) out
          = sorted_wrt (\<lambda>a b. overall b \<le> overall a) out"
    using assms py_ge_ordered
    by (intro iffI; elim sorted_wrt_mono_rel [rotated]) (auto simp add: list_all_iff)
  then show ?thesis
    by (simp add: descending_def)
qed

lemma sorted_ordered_scores:
  assumes "sort_permutes py_sorted" "sort_orders_numbers py_sorted"
    and "py_sorted overall_score True xs = Inr out"
    and "list_all ordered_score out"
  shows "out = py_sorted_desc overall xs"
proof -
  have "mset out = mset xs"
    using assms(1,3) unfolding sort_permutes_def by blast
  then have "set out = set xs"
    by (rule mset_eq_setD)
  then have "list_all ordered_score xs"
    using assms(4) by (simp add: list_all_iff)
  then have "py_sorted overall_score True xs = Inr (py_sorted_desc overall xs)"
    using assms(2) unfolding sort_orders_numbers_def by blast
  with assms(3) show ?thesis
    by simp
qed

lemma scored_descending:
  assumes "sort_permutes py_sorted" "sort_orders_numbers py_sorted"
    and "fst (app2_score_unread_books loads py_sorted llm calls p unread) = Inr out
         \<or> fst (remd_score_unread_books loads py_sorted llm calls p unread) = Inr out"
    and "list_all ordered_score out"
  shows "descending out"
proof -
  from score_unread_books_Inr [OF assms(3)] consider "out = []"
    | scores_data where "build_scores py_sorted unread scores_data = Inr out"
    by blast
  then show ?thesis
  proof cases
    case 1
    then show ?thesis by (simp add: descending_def)
  next
    case 2
    then obtain elems where
      "py_sorted overall_score True (matched_scores unread elems) = Inr out"
      using build_scores_Inr by blast
    then have "out = py_sorted_desc overall (matched_scores unread elems)"
      using sorted_ordered_scores [OF assms(1,2) _ assms(4)] by blast
    then have "sorted_wrt (\<lambda>a b. overall b \<le> overall a) out"
      by (simp add: py_sorted_desc_sorted)
    then show ?thesis
      using descending_ordered [OF assms(4)] by simp
  qed
qed



subsection \<open>The order of the result\<close>




subsection \<open>Titles\<close>

text \<open>
  C6, as the spec states it: every element whose title matches no unread book is dropped
  without an error. It is not when the title is a list: the one element of this reply
  names no unread book, and both files raise \<^verbatim>\<open>TypeError\<close> at the lookup.
\<close>

theorem score_books_unhashable_title_counterexample:
  "json_loads reply_dune = Some scores_dune
   \<and> scores_dune = JArr [JObj [(''title'', JArr [JStr ''Dune'']), (''overall_score'', JNum 50)]]
   \<and> entry_title (JObj [(''title'', JArr [JStr ''Dune'']), (''overall_score'', JNum 50)])
        \<notin> (\<lambda>b. JStr (title b)) ` set shelf_abc
   \<and> fst (app2_score_unread_books json_loads cpython_sorted (scripted_backend [reply_dune]) 0
            profile_of_reply shelf_abc) = Inl TypeError
   \<and> fst (remd_score_unread_books json_loads cpython_sorted (scripted_backend [reply_dune]) 0
            profile_of_reply shelf_abc) = Inl TypeError"
  by code_simp

text \<open>
  C6, amended. Let the sort rearrange, as Python's does, and let the reply decode to a
  list \<open>elems\<close> of dictionaries with hashable titles. Then both files return what the
  sort returns for the scores of the matching elements, and when that is a list \<open>out\<close>:
  every score of \<open>out\<close> wraps the book that the title lookup built from the unread
  books holds for the title of one element, which is that book's title character for
  character; the titles of \<open>out\<close> are exactly the titles of \<open>elems\<close> that are titles of
  unread books, with their repetitions; and an element whose title is the title of no
  unread book appears nowhere in \<open>out\<close>, whatever its other fields hold. When such
  elements are followed by a dictionary whose title is a list or a dictionary, both
  files raise \<^verbatim>\<open>TypeError\<close>, and by an element that is no dictionary,
  \<^verbatim>\<open>AttributeError\<close>.
\<close>

theorem score_books_title_matching:
  assumes "sort_permutes py_sorted" and "unread \<noteq> []"
    and "\<forall>e \<in> set elems. is_entry e"
  shows "(app2_decodes loads llm calls p unread (JArr elems) \<longrightarrow>
            app2_score_unread_books loads py_sorted llm calls p unread
              = (py_sorted overall_score True (matched_scores unread elems), Suc calls))
       \<and> (remd_decodes loads llm calls p unread (JArr elems) \<longrightarrow>
            remd_score_unread_books loads py_sorted llm calls p unread
              = (py_sorted overall_score True (matched_scores unread elems), Suc calls))
       \<and> (py_sorted overall_score True (matched_scores unread elems) = Inr out \<longrightarrow>
            mset (map (\<lambda>s. JStr (title (book s))) out)
              = mset (filter (\<lambda>t. t \<in> (\<lambda>b. JStr (title b)) ` set unread)
                        (map entry_title elems))
            \<and> (\<forall>s \<in> set out. book s \<in> set unread
                  \<and> book_lookup unread (title (book s)) = Some (book s)
                  \<and> (\<exists>d. JObj d \<in> set elems \<and> entry_title (JObj d) = JStr (title (book s))
                         \<and> s = make_score (book s) d))
            \<and> (\<forall>e \<in> set elems. \<not> title_matches unread e \<longrightarrow>
                  (\<forall>s \<in> set out. JStr (title (book s)) \<noteq> entry_title e)))
       \<and> (\<not> is_hashable (dict_get d ''title'' (JStr '''')) \<longrightarrow>
            (app2_decodes loads llm calls p unread (JArr (elems @ JObj d # rest)) \<longrightarrow>
               fst (app2_score_unread_books loads py_sorted llm calls p unread) = Inl TypeError)
            \<and> (remd_decodes loads llm calls p unread (JArr (elems @ JObj d # rest)) \<longrightarrow>
               fst (remd_score_unread_books loads py_sorted llm calls p unread) = Inl TypeError))
       \<and> ((\<nexists>d. x = JObj d) \<longrightarrow>
            (app2_decodes loads llm calls p unread (JArr (elems @ x # rest)) \<longrightarrow>
               fst (app2_score_unread_books loads py_sorted llm calls p unread)
                 = Inl AttributeError)
            \<and> (remd_decodes loads llm calls p unread (JArr (elems @ x # rest)) \<longrightarrow>
               fst (remd_score_unread_books loads py_sorted llm calls p unread)
                 = Inl AttributeError))"
proof -
  let ?m = "matched_scores unread elems"
  have a: "app2_score_unread_books loads py_sorted llm calls p unread
             = (py_sorted overall_score True ?m, Suc calls)"
    if "app2_decodes loads llm calls p unread (JArr elems)"
    using app2_score_decoded [OF assms(2) that, of py_sorted]
      build_scores_array [OF assms(3), of py_sorted unread]
    by simp
  have r: "remd_score_unread_books loads py_sorted llm calls p unread
             = (py_sorted overall_score True ?m, Suc calls)"
    if "remd_decodes loads llm calls p unread (JArr elems)"
    using remd_score_decoded [OF assms(2) that, of py_sorted]
      build_scores_array [OF assms(3), of py_sorted unread]
    by simp
  have props: "mset (map (\<lambda>s. JStr (title (book s))) out)
              = mset (filter (\<lambda>t. t \<in> (\<lambda>b. JStr (title b)) ` set unread)
                        (map entry_title elems))
            \<and> (\<forall>s \<in> set out. book s \<in> set unread
                  \<and> book_lookup unread (title (book s)) = Some (book s)
                  \<and> (\<exists>d. JObj d \<in> set elems \<and> entry_title (JObj d) = JStr (title (book s))
                         \<and> s = make_score (book s) d))
            \<and> (\<forall>e \<in> set elems. \<not> title_matches unread e \<longrightarrow>
                  (\<forall>s \<in> set out. JStr (title (book s)) \<noteq> entry_title e))"
    if sorted: "py_sorted overall_score True ?m = Inr out"
  proof -
    have perm: "mset out = mset ?m"
      using assms(1) sorted unfolding sort_permutes_def by blast
    have "mset (map (\<lambda>s. JStr (title (book s))) out)
            = mset (map (\<lambda>s. JStr (title (book s))) ?m)"
      using perm by (metis mset_map)
    then have t: "mset (map (\<lambda>s. JStr (title (book s))) out)
        = mset (filter (\<lambda>t. t \<in> (\<lambda>b. JStr (title b)) ` set unread) (map entry_title elems))"
      using matched_titles [OF assms(3), of unread] by simp
    have set: "set out = set ?m"
      using perm by (rule mset_eq_setD)
    have m: "book s \<in> set unread \<and> book_lookup unread (title (book s)) = Some (book s)
              \<and> (\<exists>d. JObj d \<in> set elems \<and> entry_title (JObj d) = JStr (title (book s))
                     \<and> s = make_score (book s) d)"
      if "s \<in> set out" for s
      using matched_members [of s unread elems] that set book_lookup_Some by blast
    have d: "JStr (title (book s)) \<noteq> entry_title e"
      if "e \<in> set elems" "\<not> title_matches unread e" "s \<in> set out" for e s
    proof
      assume "JStr (title (book s)) = entry_title e"
      moreover have "JStr (title (book s)) \<in> (\<lambda>b. JStr (title b)) ` set unread"
        using m [OF that(3)] by blast
      ultimately have "entry_title e \<in> (\<lambda>b. JStr (title b)) ` set unread"
        by simp
      then have "title_matches unread e"
        using assms(3) that(1) by (simp add: title_matches_def)
      with that(2) show False by simp
    qed
    from t m d show ?thesis
      by blast
  qed
  have bad: "build_scores py_sorted unread (JArr (elems @ JObj d # rest)) = Inl TypeError"
    if "\<not> is_hashable (dict_get d ''title'' (JStr ''''))"
    using collect_scores_unhashable [OF assms(3) that, of unread rest]
    by (simp add: build_scores_def py_iter_def)
  have odd: "build_scores py_sorted unread (JArr (elems @ x # rest)) = Inl AttributeError"
    if "\<nexists>d. x = JObj d"
    using collect_scores_not_dict [OF assms(3) that, of unread rest]
    by (simp add: build_scores_def py_iter_def)
  have e1: "fst (app2_score_unread_books loads py_sorted llm calls p unread) = Inl TypeError"
    if "\<not> is_hashable (dict_get d ''title'' (JStr ''''))"
      "app2_decodes loads llm calls p unread (JArr (elems @ JObj d # rest))"
    using app2_score_decoded [OF assms(2) that(2), of py_sorted] bad [OF that(1)] by simp
  have e2: "fst (remd_score_unread_books loads py_sorted llm calls p unread) = Inl TypeError"
    if "\<not> is_hashable (dict_get d ''title'' (JStr ''''))"
      "remd_decodes loads llm calls p unread (JArr (elems @ JObj d # rest))"
    using remd_score_decoded [OF assms(2) that(2), of py_sorted] bad [OF that(1)] by simp
  have e3: "fst (app2_score_unread_books loads py_sorted llm calls p unread) = Inl AttributeError"
    if "\<nexists>d. x = JObj d"
      "app2_decodes loads llm calls p unread (JArr (elems @ x # rest))"
    using app2_score_decoded [OF assms(2) that(2), of py_sorted] odd [OF that(1)] by simp
  have e4: "fst (remd_score_unread_books loads py_sorted llm calls p unread) = Inl AttributeError"
    if "\<nexists>d. x = JObj d"
      "remd_decodes loads llm calls p unread (JArr (elems @ x # rest))"
    using remd_score_decoded [OF assms(2) that(2), of py_sorted] odd [OF that(1)] by simp
  from a r props e1 e2 e3 e4 show ?thesis
    by blast
qed

theorem score_books_title_matching_witness:
  "\<exists>out.
     app2_score_unread_books json_loads cpython_sorted (scripted_backend [reply_stranger]) 0
       profile_of_reply shelf_abc = (Inr out, 1)
     \<and> remd_score_unread_books json_loads cpython_sorted (scripted_backend [reply_stranger]) 0
         profile_of_reply shelf_abc = (Inr out, 1)
     \<and> score_titles out = [''A'']
     \<and> \<not> title_matches shelf_abc (entry ''Z'' (JNum 99))
     \<and> (\<forall>s \<in> set out. book s \<in> set shelf_abc \<and> title (book s) \<noteq> ''Z'')
     \<and> fst (app2_score_unread_books json_loads cpython_sorted (scripted_backend [reply_dune]) 0
              profile_of_reply shelf_abc) = Inl TypeError
     \<and> fst (remd_score_unread_books json_loads cpython_sorted (scripted_backend [reply_dune]) 0
              profile_of_reply shelf_abc) = Inl TypeError"
proof -
  let ?llm = "scripted_backend [reply_stranger]"
  let ?elems = "[entry ''A'' (JNum 40), entry ''Z'' (JNum 99)]"
  let ?dune = "[(''title'', JArr [JStr ''Dune'']), (''overall_score'', JNum 50)]"
  have ne: "shelf_abc \<noteq> []"
    by (simp add: shelf_abc_def)
  have entries: "\<forall>e \<in> set ?elems. is_entry e"
    by (simp add: is_entry_def entry_def dict_get_def is_hashable_def)
  have none: "\<forall>e \<in> set ([] :: json list). is_entry e"
    by simp
  have "app2_extract_json json_loads CHR ''['' CHR '']'' reply_stranger = Some (JArr ?elems)"
    and "remd_extract_json json_loads CHR ''['' CHR '']'' reply_stranger = Some (JArr ?elems)"
    by code_simp+
  then have dec: "app2_decodes json_loads ?llm 0 profile_of_reply shelf_abc (JArr ?elems)"
    "remd_decodes json_loads ?llm 0 profile_of_reply shelf_abc (JArr ?elems)"
    by (simp_all add: decodes_example)
  have "app2_extract_json json_loads CHR ''['' CHR '']'' reply_dune = Some (JArr ([] @ JObj ?dune # []))"
    and "remd_extract_json json_loads CHR ''['' CHR '']'' reply_dune = Some (JArr ([] @ JObj ?dune # []))"
    by code_simp+
  then have dune:
    "app2_decodes json_loads (scripted_backend [reply_dune]) 0 profile_of_reply shelf_abc
       (JArr ([] @ JObj ?dune # []))"
    "remd_decodes json_loads (scripted_backend [reply_dune]) 0 profile_of_reply shelf_abc
       (JArr ([] @ JObj ?dune # []))"
    by (simp_all only: decodes_example)
  have unhashable: "\<not> is_hashable (dict_get ?dune ''title'' (JStr ''''))"
    by code_simp
  have "map_sum id score_titles
          (cpython_sorted overall_score True (matched_scores shelf_abc ?elems)) = Inr [''A'']"
    by code_simp
  then obtain out where
    sorted: "cpython_sorted overall_score True (matched_scores shelf_abc ?elems) = Inr out"
    and t: "score_titles out = [''A'']"
    by (cases "cpython_sorted overall_score True (matched_scores shelf_abc ?elems)") auto
  have z: "\<not> title_matches shelf_abc (entry ''Z'' (JNum 99))"
    by code_simp
  have zt: "entry_title (entry ''Z'' (JNum 99)) = JStr ''Z''"
    by code_simp
  note inst = score_books_title_matching [OF cpython_sorted_permutes ne entries,
      where loads = json_loads and llm = ?llm and calls = 0 and p = profile_of_reply
        and out = out]
  note inst_dune = score_books_title_matching [OF cpython_sorted_permutes ne none,
      where loads = json_loads and llm = "scripted_backend [reply_dune]" and calls = 0
        and p = profile_of_reply and d = ?dune and rest = "[]"]
  from inst dec sorted have top:
    "app2_score_unread_books json_loads cpython_sorted ?llm 0 profile_of_reply shelf_abc
       = (Inr out, 1)"
    "remd_score_unread_books json_loads cpython_sorted ?llm 0 profile_of_reply shelf_abc
       = (Inr out, 1)"
    by simp_all
  from inst sorted have members: "\<forall>s \<in> set out. book s \<in> set shelf_abc"
    by blast
  from inst sorted have "\<forall>e \<in> set ?elems. \<not> title_matches shelf_abc e \<longrightarrow>
      (\<forall>s \<in> set out. JStr (title (book s)) \<noteq> entry_title e)"
    by blast
  with z zt have dropped: "\<forall>s \<in> set out. title (book s) \<noteq> ''Z''"
    by auto
  from inst_dune dune unhashable have errors:
    "fst (app2_score_unread_books json_loads cpython_sorted (scripted_backend [reply_dune]) 0
            profile_of_reply shelf_abc) = Inl TypeError"
    "fst (remd_score_unread_books json_loads cpython_sorted (scripted_backend [reply_dune]) 0
            profile_of_reply shelf_abc) = Inl TypeError"
    by blast+
  from top t z members dropped errors show ?thesis
    by (intro exI [of _ out]) simp
qed

subsection \<open>Repeated titles\<close>



section \<open>Correctness of the recommendations\<close>

lemma py_slice_prefix: "0 \<le> n \<Longrightarrow> py_slice xs 0 n = take (nat n) xs"
  by (auto simp add: py_slice_def Let_def min_def)

lemma py_slice_prefix_negative:
  assumes "n < 0"
  shows "py_slice xs 0 n = take (length xs - nat (- n)) xs"
proof -
  have "nat (max (n + int (length xs)) 0) = length xs - nat (- n)"
    using assms by arith
  then show ?thesis
    using assms by (simp add: py_slice_def Let_def)
qed

lemma descending_take_drop:
  assumes "descending scored" "a \<in> set (take k scored)" "b \<in> set (drop k scored)"
  shows "py_ge (overall_score a) (overall_score b)"
  using assms unfolding descending_def by (rule sorted_wrt_take_drop)

lemma app2_get_recommendations_slice:
  assumes "app2_analyze_reading_taste loads llm calls read_books = (Inr p, calls_mid)"
    and "app2_score_unread_books loads py_sorted llm calls_mid p unread_books
           = (Inr scored, calls_out)"
  shows "app2_get_recommendations loads py_sorted llm calls read_books unread_books top_n
           = (Inr (p, py_prefix scored (top_n_value top_n)), calls_out)"
  using assms by (simp add: app2_get_recommendations_def py_prefix_def)

lemma remd_get_recommendations_slice:
  assumes "remd_analyze_reading_taste loads llm calls read_books = (Inr p, calls_mid)"
    and "remd_score_unread_books loads py_sorted llm calls_mid p unread_books
           = (Inr scored, calls_out)"
  shows "remd_get_recommendations loads py_sorted llm calls read_books unread_books top_n
           = (Inr (p, py_prefix scored (top_n_value top_n)), calls_out)"
  using assms by (simp add: remd_get_recommendations_def)

lemma py_prefix_cases:
  "py_prefix scored (top_n_value (Given None)) = scored"
  "py_prefix scored (top_n_value Unset) = take 5 scored"
  "0 \<le> n \<Longrightarrow> py_prefix scored (top_n_value (Given (Some n))) = take (nat n) scored"
  "n < 0 \<Longrightarrow> py_prefix scored (top_n_value (Given (Some n)))
                = take (length scored - nat (- n)) scored"
  by (simp_all add: py_prefix_def top_n_value_def py_slice_prefix py_slice_prefix_negative)

text \<open>
  C9, as the spec states it: with \<open>top_n\<close> unset, \<^verbatim>\<open>get_recommendations\<close> returns all
  scored books. It does not: both files declare \<^verbatim>\<open>top_n: int = 5\<close>, so with six scored
  books and \<open>top_n\<close> unset the first five come back, and the book D is left out.
\<close>

theorem get_recommendations_unset_counterexample:
  "top_n_value Unset = Some 5
   \<and> map_sum id score_titles
        (fst (app2_score_unread_books json_loads cpython_sorted
                (scripted_backend [reply_profile, reply_abcdef]) 1 profile_of_reply shelf_abcdef))
       = Inr [''B'', ''E'', ''C'', ''F'', ''A'', ''D'']
   \<and> map_sum id (\<lambda>r. score_titles (snd r))
        (fst (app2_get_recommendations json_loads cpython_sorted
                (scripted_backend [reply_profile, reply_abcdef]) 0 dystopian_shelf shelf_abcdef
                Unset))
       = Inr [''B'', ''E'', ''C'', ''F'', ''A'']
   \<and> map_sum id score_titles
        (fst (remd_score_unread_books json_loads cpython_sorted
                (scripted_backend [reply_profile, reply_abcdef]) 1 profile_of_reply shelf_abcdef))
       = Inr [''B'', ''E'', ''C'', ''F'', ''A'', ''D'']
   \<and> map_sum id (\<lambda>r. score_titles (snd r))
        (fst (remd_get_recommendations json_loads cpython_sorted
                (scripted_backend [reply_profile, reply_abcdef]) 0 dystopian_shelf shelf_abcdef
                Unset))
       = Inr [''B'', ''E'', ''C'', ''F'', ''A'']"
  by code_simp

text \<open>
  C9, amended. \<^verbatim>\<open>get_recommendations\<close> builds the profile, scores the unread books
  with it, and returns the profile with the scored list cut as \<^verbatim>\<open>scored[:top_n]\<close>: the
  whole list when \<open>top_n\<close> is \<^verbatim>\<open>None\<close>, its first five elements when \<open>top_n\<close> is unset,
  its first \<open>top_n\<close> elements when \<open>top_n\<close> is a count, and all but the last \<open>- top_n\<close>
  when it is negative. When the sort is Python's and the scores are numbers other than
  \<^verbatim>\<open>NaN\<close>, every score returned is at least every score left out. With five scored
  books, \<open>top_n = 2\<close> gives the two highest, and \<^verbatim>\<open>None\<close> gives all five, as does
  \<open>top_n\<close> unset, five being the default. This holds in both files.
\<close>

theorem get_recommendations_top_n:
  assumes "sort_permutes py_sorted" and "sort_orders_numbers py_sorted"
  shows
  "(app2_analyze_reading_taste loads llm calls read_books = (Inr p, calls_mid)
      \<and> app2_score_unread_books loads py_sorted llm calls_mid p unread_books
          = (Inr scored, calls_out)
    \<longrightarrow> app2_get_recommendations loads py_sorted llm calls read_books unread_books (Given None)
          = (Inr (p, scored), calls_out)
        \<and> app2_get_recommendations loads py_sorted llm calls read_books unread_books Unset
          = (Inr (p, take 5 scored), calls_out)
        \<and> (0 \<le> n \<longrightarrow>
             app2_get_recommendations loads py_sorted llm calls read_books unread_books
               (Given (Some n))
               = (Inr (p, take (nat n) scored), calls_out))
        \<and> (n < 0 \<longrightarrow>
             app2_get_recommendations loads py_sorted llm calls read_books unread_books
               (Given (Some n))
               = (Inr (p, take (length scored - nat (- n)) scored), calls_out))
        \<and> (list_all ordered_score scored \<longrightarrow>
             (\<forall>a \<in> set (take k scored). \<forall>b \<in> set (drop k scored).
                py_ge (overall_score a) (overall_score b))))
   \<and> (remd_analyze_reading_taste loads llm calls read_books = (Inr p, calls_mid)
      \<and> remd_score_unread_books loads py_sorted llm calls_mid p unread_books
          = (Inr scored, calls_out)
    \<longrightarrow> remd_get_recommendations loads py_sorted llm calls read_books unread_books (Given None)
          = (Inr (p, scored), calls_out)
        \<and> remd_get_recommendations loads py_sorted llm calls read_books unread_books Unset
          = (Inr (p, take 5 scored), calls_out)
        \<and> (0 \<le> n \<longrightarrow>
             remd_get_recommendations loads py_sorted llm calls read_books unread_books
               (Given (Some n))
               = (Inr (p, take (nat n) scored), calls_out))
        \<and> (n < 0 \<longrightarrow>
             remd_get_recommendations loads py_sorted llm calls read_books unread_books
               (Given (Some n))
               = (Inr (p, take (length scored - nat (- n)) scored), calls_out))
        \<and> (list_all ordered_score scored \<longrightarrow>
             (\<forall>a \<in> set (take k scored). \<forall>b \<in> set (drop k scored).
                py_ge (overall_score a) (overall_score b))))
   \<and> map_sum id (\<lambda>r. score_titles (snd r))
        (fst (app2_get_recommendations json_loads cpython_sorted
                (scripted_backend [reply_profile, reply_abcde]) 0 dystopian_shelf shelf_abcde
                (Given (Some 2))))
       = Inr [''B'', ''E'']
   \<and> map_sum id (\<lambda>r. score_titles (snd r))
        (fst (app2_get_recommendations json_loads cpython_sorted
                (scripted_backend [reply_profile, reply_abcde]) 0 dystopian_shelf shelf_abcde
                (Given None)))
       = Inr [''B'', ''E'', ''C'', ''A'', ''D'']
   \<and> map_sum id (\<lambda>r. score_titles (snd r))
        (fst (app2_get_recommendations json_loads cpython_sorted
                (scripted_backend [reply_profile, reply_abcde]) 0 dystopian_shelf shelf_abcde
                Unset))
       = Inr [''B'', ''E'', ''C'', ''A'', ''D'']
   \<and> map_sum id (\<lambda>r. score_titles (snd r))
        (fst (remd_get_recommendations json_loads cpython_sorted
                (scripted_backend [reply_profile, reply_abcde]) 0 dystopian_shelf shelf_abcde
                (Given (Some 2))))
       = Inr [''B'', ''E'']
   \<and> map_sum id (\<lambda>r. score_titles (snd r))
        (fst (remd_get_recommendations json_loads cpython_sorted
                (scripted_backend [reply_profile, reply_abcde]) 0 dystopian_shelf shelf_abcde
                (Given None)))
       = Inr [''B'', ''E'', ''C'', ''A'', ''D'']
   \<and> map_sum id (\<lambda>r. score_titles (snd r))
        (fst (remd_get_recommendations json_loads cpython_sorted
                (scripted_backend [reply_profile, reply_abcde]) 0 dystopian_shelf shelf_abcde
                Unset))
       = Inr [''B'', ''E'', ''C'', ''A'', ''D'']"
proof -
  have a: "app2_get_recommendations loads py_sorted llm calls read_books unread_books (Given None)
          = (Inr (p, scored), calls_out)
        \<and> app2_get_recommendations loads py_sorted llm calls read_books unread_books Unset
          = (Inr (p, take 5 scored), calls_out)
        \<and> (0 \<le> n \<longrightarrow>
             app2_get_recommendations loads py_sorted llm calls read_books unread_books
               (Given (Some n))
               = (Inr (p, take (nat n) scored), calls_out))
        \<and> (n < 0 \<longrightarrow>
             app2_get_recommendations loads py_sorted llm calls read_books unread_books
               (Given (Some n))
               = (Inr (p, take (length scored - nat (- n)) scored), calls_out))
        \<and> (list_all ordered_score scored \<longrightarrow>
             (\<forall>a \<in> set (take k scored). \<forall>b \<in> set (drop k scored).
                py_ge (overall_score a) (overall_score b)))"
    if "app2_analyze_reading_taste loads llm calls read_books = (Inr p, calls_mid)"
      "app2_score_unread_books loads py_sorted llm calls_mid p unread_books
         = (Inr scored, calls_out)"
  proof -
    have "descending scored" if "list_all ordered_score scored"
      using scored_descending [OF assms _ that, of loads llm calls_mid p unread_books]
        \<open>app2_score_unread_books loads py_sorted llm calls_mid p unread_books
           = (Inr scored, calls_out)\<close>
      by simp
    then have "list_all ordered_score scored \<longrightarrow>
             (\<forall>a \<in> set (take k scored). \<forall>b \<in> set (drop k scored).
                py_ge (overall_score a) (overall_score b))"
      using descending_take_drop by blast
    then show ?thesis
      by (simp add: app2_get_recommendations_slice [OF that] py_prefix_cases)
  qed
  have r: "remd_get_recommendations loads py_sorted llm calls read_books unread_books (Given None)
          = (Inr (p, scored), calls_out)
        \<and> remd_get_recommendations loads py_sorted llm calls read_books unread_books Unset
          = (Inr (p, take 5 scored), calls_out)
        \<and> (0 \<le> n \<longrightarrow>
             remd_get_recommendations loads py_sorted llm calls read_books unread_books
               (Given (Some n))
               = (Inr (p, take (nat n) scored), calls_out))
        \<and> (n < 0 \<longrightarrow>
             remd_get_recommendations loads py_sorted llm calls read_books unread_books
               (Given (Some n))
               = (Inr (p, take (length scored - nat (- n)) scored), calls_out))
        \<and> (list_all ordered_score scored \<longrightarrow>
             (\<forall>a \<in> set (take k scored). \<forall>b \<in> set (drop k scored).
                py_ge (overall_score a) (overall_score b)))"
    if "remd_analyze_reading_taste loads llm calls read_books = (Inr p, calls_mid)"
      "remd_score_unread_books loads py_sorted llm calls_mid p unread_books
         = (Inr scored, calls_out)"
  proof -
    have "descending scored" if "list_all ordered_score scored"
      using scored_descending [OF assms _ that, of loads llm calls_mid p unread_books]
        \<open>remd_score_unread_books loads py_sorted llm calls_mid p unread_books
           = (Inr scored, calls_out)\<close>
      by simp
    then have "list_all ordered_score scored \<longrightarrow>
             (\<forall>a \<in> set (take k scored). \<forall>b \<in> set (drop k scored).
                py_ge (overall_score a) (overall_score b))"
      using descending_take_drop by blast
    then show ?thesis
      by (simp add: remd_get_recommendations_slice [OF that] py_prefix_cases)
  qed
  have e1: "map_sum id (\<lambda>r. score_titles (snd r))
        (fst (app2_get_recommendations json_loads cpython_sorted
                (scripted_backend [reply_profile, reply_abcde]) 0 dystopian_shelf shelf_abcde
                (Given (Some 2))))
       = Inr [''B'', ''E'']"
    by code_simp
  have e2: "map_sum id (\<lambda>r. score_titles (snd r))
        (fst (app2_get_recommendations json_loads cpython_sorted
                (scripted_backend [reply_profile, reply_abcde]) 0 dystopian_shelf shelf_abcde
                (Given None)))
       = Inr [''B'', ''E'', ''C'', ''A'', ''D'']"
    by code_simp
  have e3: "map_sum id (\<lambda>r. score_titles (snd r))
        (fst (app2_get_recommendations json_loads cpython_sorted
                (scripted_backend [reply_profile, reply_abcde]) 0 dystopian_shelf shelf_abcde
                Unset))
       = Inr [''B'', ''E'', ''C'', ''A'', ''D'']"
    by code_simp
  have e4: "map_sum id (\<lambda>r. score_titles (snd r))
        (fst (remd_get_recommendations json_loads cpython_sorted
                (scripted_backend [reply_profile, reply_abcde]) 0 dystopian_shelf shelf_abcde
                (Given (Some 2))))
       = Inr [''B'', ''E'']"
    by code_simp
  have e5: "map_sum id (\<lambda>r. score_titles (snd r))
        (fst (remd_get_recommendations json_loads cpython_sorted
                (scripted_backend [reply_profile, reply_abcde]) 0 dystopian_shelf shelf_abcde
                (Given None)))
       = Inr [''B'', ''E'', ''C'', ''A'', ''D'']"
    by code_simp
  have e6: "map_sum id (\<lambda>r. score_titles (snd r))
        (fst (remd_get_recommendations json_loads cpython_sorted
                (scripted_backend [reply_profile, reply_abcde]) 0 dystopian_shelf shelf_abcde
                Unset))
       = Inr [''B'', ''E'', ''C'', ''A'', ''D'']"
    by code_simp
  from a r e1 e2 e3 e4 e5 e6 show ?thesis
    by blast
qed

theorem get_recommendations_top_n_witness:
  "\<exists>scored.
     score_titles scored = [''B'', ''E'', ''C'', ''F'', ''A'', ''D'']
     \<and> list_all ordered_score scored
     \<and> app2_get_recommendations json_loads cpython_sorted
          (scripted_backend [reply_profile, reply_abcdef]) 0 dystopian_shelf shelf_abcdef
          (Given None) = (Inr (profile_of_reply, scored), 2)
     \<and> app2_get_recommendations json_loads cpython_sorted
          (scripted_backend [reply_profile, reply_abcdef]) 0 dystopian_shelf shelf_abcdef
          Unset = (Inr (profile_of_reply, take 5 scored), 2)
     \<and> app2_get_recommendations json_loads cpython_sorted
          (scripted_backend [reply_profile, reply_abcdef]) 0 dystopian_shelf shelf_abcdef
          (Given (Some 2)) = (Inr (profile_of_reply, take 2 scored), 2)
     \<and> app2_get_recommendations json_loads cpython_sorted
          (scripted_backend [reply_profile, reply_abcdef]) 0 dystopian_shelf shelf_abcdef
          (Given (Some (- 1))) = (Inr (profile_of_reply, take 5 scored), 2)
     \<and> remd_get_recommendations json_loads cpython_sorted
          (scripted_backend [reply_profile, reply_abcdef]) 0 dystopian_shelf shelf_abcdef
          (Given None) = (Inr (profile_of_reply, scored), 2)
     \<and> remd_get_recommendations json_loads cpython_sorted
          (scripted_backend [reply_profile, reply_abcdef]) 0 dystopian_shelf shelf_abcdef
          Unset = (Inr (profile_of_reply, take 5 scored), 2)
     \<and> remd_get_recommendations json_loads cpython_sorted
          (scripted_backend [reply_profile, reply_abcdef]) 0 dystopian_shelf shelf_abcdef
          (Given (Some 2)) = (Inr (profile_of_reply, take 2 scored), 2)
     \<and> score_titles (take 2 scored) = [''B'', ''E'']
     \<and> score_titles (take 5 scored) = [''B'', ''E'', ''C'', ''F'', ''A'']
     \<and> py_ge (overall_score (scored ! 1)) (overall_score (scored ! 2))"
proof -
  let ?llm = "scripted_backend [reply_profile, reply_abcdef]"
  let ?app2 = "app2_score_unread_books json_loads cpython_sorted ?llm 1 profile_of_reply
                 shelf_abcdef"
  have a1: "app2_analyze_reading_taste json_loads ?llm 0 dystopian_shelf
              = (Inr profile_of_reply, 1)"
    by code_simp
  have r1: "remd_analyze_reading_taste json_loads ?llm 0 dystopian_shelf
              = (Inr profile_of_reply, 1)"
    by code_simp
  have same: "remd_score_unread_books json_loads cpython_sorted ?llm 1 profile_of_reply
                shelf_abcdef = ?app2"
    by code_simp
  have "map_sum id score_titles (fst ?app2) = Inr [''B'', ''E'', ''C'', ''F'', ''A'', ''D'']"
    and "map_sum id (list_all ordered_score) (fst ?app2) = Inr True"
    and "snd ?app2 = 2"
    by code_simp+
  then obtain scored where a2: "?app2 = (Inr scored, 2)"
    and t: "score_titles scored = [''B'', ''E'', ''C'', ''F'', ''A'', ''D'']"
    and o: "list_all ordered_score scored"
    by (cases ?app2; cases "fst ?app2") auto
  from same a2 have r2:
    "remd_score_unread_books json_loads cpython_sorted ?llm 1 profile_of_reply shelf_abcdef
       = (Inr scored, 2)"
    by simp
  have len: "length scored = 6"
    using t by (metis length_map score_titles_def length_Cons list.size(3) eval_nat_numeral(2,3)
        One_nat_def numeral_2_eq_2 semiring_norm(26,27,28))
  note inst = get_recommendations_top_n
    [OF cpython_sorted_permutes cpython_sorted_orders_numbers,
      where loads = json_loads and llm = ?llm and calls = 0
      and read_books = dystopian_shelf and unread_books = shelf_abcdef and p = profile_of_reply
      and calls_mid = 1 and calls_out = 2 and scored = scored]
  from inst [where n = 2 and k = 2] a1 a2 have app2:
    "app2_get_recommendations json_loads cpython_sorted ?llm 0 dystopian_shelf shelf_abcdef
       (Given None) = (Inr (profile_of_reply, scored), 2)"
    "app2_get_recommendations json_loads cpython_sorted ?llm 0 dystopian_shelf shelf_abcdef
       Unset = (Inr (profile_of_reply, take 5 scored), 2)"
    "app2_get_recommendations json_loads cpython_sorted ?llm 0 dystopian_shelf shelf_abcdef
       (Given (Some 2)) = (Inr (profile_of_reply, take 2 scored), 2)"
    by simp_all
  from inst [where n = "- 1" and k = 2] a1 a2 len have neg:
    "app2_get_recommendations json_loads cpython_sorted ?llm 0 dystopian_shelf shelf_abcdef
       (Given (Some (- 1))) = (Inr (profile_of_reply, take 5 scored), 2)"
    by simp
  from inst [where n = 2 and k = 2] r1 r2 have remd:
    "remd_get_recommendations json_loads cpython_sorted ?llm 0 dystopian_shelf shelf_abcdef
       (Given None) = (Inr (profile_of_reply, scored), 2)"
    "remd_get_recommendations json_loads cpython_sorted ?llm 0 dystopian_shelf shelf_abcdef
       Unset = (Inr (profile_of_reply, take 5 scored), 2)"
    "remd_get_recommendations json_loads cpython_sorted ?llm 0 dystopian_shelf shelf_abcdef
       (Given (Some 2)) = (Inr (profile_of_reply, take 2 scored), 2)"
    by simp_all
  from inst [where n = 2 and k = 2] a1 a2 o have
    hi: "\<forall>a \<in> set (take 2 scored). \<forall>b \<in> set (drop 2 scored).
           py_ge (overall_score a) (overall_score b)"
    by simp
  have "take 2 scored ! 1 \<in> set (take 2 scored)" "drop 2 scored ! 0 \<in> set (drop 2 scored)"
    using len by (simp_all only: nth_mem length_take length_drop)
  moreover have "take 2 scored ! 1 = scored ! 1" "drop 2 scored ! 0 = scored ! 2"
    using len by simp_all
  ultimately have "scored ! 1 \<in> set (take 2 scored)" "scored ! 2 \<in> set (drop 2 scored)"
    by simp_all
  with hi have ge: "py_ge (overall_score (scored ! 1)) (overall_score (scored ! 2))"
    by blast
  have "score_titles (take 2 scored) = take 2 (score_titles scored)"
    "score_titles (take 5 scored) = take 5 (score_titles scored)"
    by (simp_all add: score_titles_def take_map)
  then have tk: "score_titles (take 2 scored) = [''B'', ''E'']"
    "score_titles (take 5 scored) = [''B'', ''E'', ''C'', ''F'', ''A'']"
    using t by simp_all
  from t o app2 neg remd tk ge show ?thesis
    by (intro exI [of _ scored]) simp
qed

section \<open>Replies of another shape\<close>

text \<open>
  What the two files do with a reply that is JSON of another shape than the prompt asks
  for, here the number \<^verbatim>\<open>123\<close>. \<^verbatim>\<open>app2.py\<close> decodes the whole reply and then
  fails on the value, outside what its handler catches; \<^verbatim>\<open>remd.py\<close> decodes the
  empty slice and takes the fallback. An element of a scoring reply that is not a
  dictionary, or whose title is a list, stops the loop of both files with an exception.
\<close>

lemma number_reply_to_analysis:
  "fst (app2_analyze_reading_taste json_loads (scripted_backend [reply_number]) 0 dystopian_shelf)
     = Inl AttributeError"
  "fst (remd_analyze_reading_taste json_loads (scripted_backend [reply_number]) 0 dystopian_shelf)
     = remd_create_basic_profile dystopian_shelf"
  by code_simp+

lemma number_reply_to_scoring:
  "fst (app2_score_unread_books json_loads cpython_sorted (scripted_backend [reply_number]) 0
          profile_of_reply shelf_abc) = Inl TypeError"
  "fst (remd_score_unread_books json_loads cpython_sorted (scripted_backend [reply_number]) 0
          profile_of_reply shelf_abc) = Inr []"
  by code_simp+

lemma malformed_elements:
  "build_scores cpython_sorted shelf_abc (JArr [JNum 1]) = Inl AttributeError"
  "build_scores cpython_sorted shelf_abc (JArr [JObj [(''title'', JArr [])]]) = Inl TypeError"
  by code_simp+

text \<open>
  Scores that are strings are sorted as strings, so that \<^verbatim>\<open>"9"\<close> stands before
  \<^verbatim>\<open>"85"\<close> and \<^verbatim>\<open>"100"\<close>; a number and a string cannot be compared, and the sort of
  both files raises \<^verbatim>\<open>TypeError\<close>.
\<close>

lemma string_scores:
  "map_sum id score_titles
     (fst (app2_score_unread_books json_loads cpython_sorted (scripted_backend [reply_strings]) 0
             profile_of_reply shelf_abc)) = Inr [''B'', ''A'', ''C'']"
  "map_sum id score_titles
     (fst (remd_score_unread_books json_loads cpython_sorted (scripted_backend [reply_strings]) 0
             profile_of_reply shelf_abc)) = Inr [''B'', ''A'', ''C'']"
  "fst (app2_score_unread_books json_loads cpython_sorted (scripted_backend [reply_mixed]) 0
          profile_of_reply shelf_abc) = Inl TypeError"
  "fst (remd_score_unread_books json_loads cpython_sorted (scripted_backend [reply_mixed]) 0
          profile_of_reply shelf_abc) = Inl TypeError"
  by code_simp+

end
